theory Spec2Isabelle
  imports Main
begin

section \<open>Data model\<close>

text \<open>
  The persisted rows of the four tables the credential engine works on. Identifiers are
  UUID strings, instants are milliseconds since the epoch (the value of a JavaScript
  \<open>Date\<close>). A table is the list of its rows in insertion order. A column that may be
  null is an \<open>option\<close>.
\<close>

type_synonym uuid = string
type_synonym instant = int

text \<open>\<open>mfa_settings\<close> (user.model.js, a JSONB column): the \<open>totp\<close> sub-record.\<close>

record totp_settings =
  totp_secret :: string
  totp_verified :: bool
  backup_codes :: "string list"
  setup_at :: "instant option"
  verified_at :: "instant option"

record mfa_settings =
  enabled :: bool
  preferred_method :: "string option"
  totp :: "totp_settings option"

record user =
  u_id :: uuid
  username :: string
  email :: "string option"
  password_hash :: string
  mfa :: "mfa_settings option"
  is_active :: bool
  is_locked :: bool
  failed_attempts :: int
  last_login :: "instant option"
  roles :: "string list"

record consumer =
  c_id :: uuid
  c_name :: string
  c_public_key :: string
  allowed_ips :: "string list option"
  c_is_active :: bool

datatype key_status = Active | Inactive | Revoked

record provider_key =
  k_id :: uuid
  public_key :: string
  private_key_encrypted :: string
  key_algorithm :: string
  key_version :: int
  status :: key_status
  valid_from :: instant
  valid_until :: "instant option"
  created_by :: "uuid option"

record token =
  t_id :: uuid
  t_user_id :: uuid
  t_consumer_id :: uuid
  token_hash :: string
  signature :: string
  provider_key_id :: uuid
  expires_at :: instant
  meta_ip_address :: string
  meta_user_agent :: string
  meta_issued_at :: instant
  is_revoked :: bool
  revoked_at :: "instant option"

record db =
  users :: "user list"
  consumers :: "consumer list"
  tokens :: "token list"
  provider_keys :: "provider_key list"

text \<open>
  What a service function returns: \<open>{success: true, ...}\<close> with its payload, or
  \<open>{success: false, code, message}\<close>.
\<close>

datatype 'a outcome = Success 'a | Failure string string

fun is_success :: "'a outcome \<Rightarrow> bool" where
  "is_success (Success _) = True"
| "is_success (Failure _ _) = False"

fun code_of :: "'a outcome \<Rightarrow> string option" where
  "code_of (Success _) = None"
| "code_of (Failure c _) = Some c"

text \<open>A JavaScript exception, carried as a value until a \<open>catch\<close> handles it.\<close>

datatype exn =
  Error string | ReferenceError string | TypeError string | UniqueConstraintError string
| DatabaseError string

text \<open>JavaScript truthiness of a string that may be \<open>undefined\<close>: \<open>!x\<close>.\<close>

fun falsy :: "string option \<Rightarrow> bool" where
  "falsy None = True"
| "falsy (Some v) = (v = [])"

section \<open>Backup codes (mfa.service.js)\<close>

text \<open>
  \<open>generateBackupCode\<close>: the loop runs \<open>i = 0..9\<close>; at \<open>i = 5\<close> it appends the hyphen,
  at every other index one character of \<open>chars\<close>. The random source is a tape
  \<open>rnd\<close> read at a position: \<open>rnd k mod length chars\<close> is the value of
  \<open>Math.floor(Math.random() * chars.length)\<close> at the k-th draw, an index in 0..35.
  The function returns the code and the position after it.
\<close>

definition chars :: string where
  "chars = ''0123456789ABCDEFGHIJKLMNOPQRSTUVWXYZ''"

definition pick :: "(nat \<Rightarrow> nat) \<Rightarrow> nat \<Rightarrow> char" where
  "pick rnd k = chars ! (rnd k mod length chars)"

definition backup_step :: "(nat \<Rightarrow> nat) \<Rightarrow> nat \<Rightarrow> string \<times> nat \<Rightarrow> string \<times> nat" where
  "backup_step rnd i st =
     (case st of (code, k) \<Rightarrow>
        if i = 5 then (code @ ''-'', k)
        else (code @ [pick rnd k], Suc k))"

definition generateBackupCode :: "(nat \<Rightarrow> nat) \<Rightarrow> nat \<Rightarrow> string \<times> nat" where
  "generateBackupCode rnd k = fold (backup_step rnd) [0..<10] ([], k)"

text \<open>The loop \<open>for (i = 0; i < 10; i++) backupCodes.push(generateBackupCode())\<close>.\<close>

fun push_codes :: "(nat \<Rightarrow> nat) \<Rightarrow> nat \<Rightarrow> nat \<Rightarrow> string list \<Rightarrow> string list" where
  "push_codes rnd 0 k acc = acc"
| "push_codes rnd (Suc n) k acc =
     (case generateBackupCode rnd k of (c, k') \<Rightarrow> push_codes rnd n k' (acc @ [c]))"

definition findUserByPk :: "uuid \<Rightarrow> db \<Rightarrow> user option" where
  "findUserByPk uid s = find (\<lambda>u. u_id u = uid) (users s)"

text \<open>\<open>user.update(values)\<close>: an UPDATE of the row with this primary key.\<close>

definition updateUser :: "uuid \<Rightarrow> (user \<Rightarrow> user) \<Rightarrow> db \<Rightarrow> db" where
  "updateUser uid f s = s\<lparr>users := map (\<lambda>u. if u_id u = uid then f u else u) (users s)\<rparr>"

text \<open>
  \<open>verifyAndEnableTOTP\<close>. \<open>totp_ok secret token now\<close> is \<open>speakeasy.totp.verify\<close>
  with a window of one step. On success the function returns the backup codes. It
  writes the new settings into the object that \<open>user.mfa_settings\<close> returned, which
  is the value the instance holds, and passes that same object to \<open>user.update\<close>:
  Sequelize finds the attribute unchanged and issues no UPDATE, so the stored row
  stays as it was.
\<close>

definition verifyAndEnableTOTP ::
  "(string \<Rightarrow> string \<Rightarrow> instant \<Rightarrow> bool) \<Rightarrow> (nat \<Rightarrow> nat) \<Rightarrow> instant \<Rightarrow> uuid \<Rightarrow> string \<Rightarrow> db
     \<Rightarrow> string list outcome \<times> db" where
  "verifyAndEnableTOTP totp_ok rnd now userId tok s =
     (case findUserByPk userId s of
        None \<Rightarrow> (Failure ''USER_NOT_FOUND'' ''User tidak ditemukan'', s)
      | Some u \<Rightarrow>
          let mfaSettings = (case mfa u of
                               None \<Rightarrow> \<lparr>enabled = False, preferred_method = None, totp = None\<rparr>
                             | Some m \<Rightarrow> m)
          in (case totp mfaSettings of
                None \<Rightarrow> (Failure ''TOTP_NOT_SETUP''
                           ''TOTP belum di-setup, silakan setup terlebih dahulu'', s)
              | Some t \<Rightarrow>
                  if totp_secret t = [] then
                    (Failure ''TOTP_NOT_SETUP''
                       ''TOTP belum di-setup, silakan setup terlebih dahulu'', s)
                  else if totp_verified t \<and> enabled mfaSettings then
                    (Failure ''TOTP_ALREADY_VERIFIED'' ''TOTP sudah diverifikasi sebelumnya'', s)
                  else if \<not> totp_ok (totp_secret t) tok now then
                    (Failure ''INVALID_TOKEN'' ''Token TOTP tidak valid atau kedaluwarsa'', s)
                  else
                    let backupCodes = push_codes rnd 10 0 []
                    in (Success backupCodes, s)))"

section \<open>Request signatures (auth.middleware.js)\<close>

text \<open>\<open>String.prototype.split(':')\<close>.\<close>

fun split_on :: "char \<Rightarrow> string \<Rightarrow> string \<Rightarrow> string list" where
  "split_on d cur [] = [cur]"
| "split_on d cur (c # cs) = (if c = d then cur # split_on d [] cs else split_on d (cur @ [c]) cs)"

definition split_colon :: "string \<Rightarrow> string list" where
  "split_colon str = split_on CHR '':'' [] str"

text \<open>
  A header value reaches the middleware as a string of Latin-1 characters (Node
  decodes the bytes of a header so); a \<open>char\<close> is one such character. Of the white
  space and line terminators that \<open>parseInt\<close> skips, seven lie in that range: tab,
  line feed, vertical tab, form feed, carriage return, space and the no-break space
  \<open>0xA0\<close>.
\<close>

definition is_js_space :: "char \<Rightarrow> bool" where
  "is_js_space c =
     (c \<in> set [CHR '' '', CHR 0x09, CHR 0x0A, CHR 0x0B, CHR 0x0C, CHR 0x0D, CHR 0xA0])"

text \<open>
  \<open>parseInt(str)\<close> with no radix: leading white space is skipped, then an optional
  sign, then a \<open>0x\<close> prefix selects base 16, and the longest run of digits is read.
  With no digit the result is \<open>NaN\<close>, here \<open>None\<close>. The result is the exact integer;
  the number JavaScript computes is that integer up to \<open>2^53\<close> and beyond it a
  rounding of it, which has its sign and is as far beyond every clock value.
\<close>

definition digit_val :: "char \<Rightarrow> nat option" where
  "digit_val c =
     (let n = of_char c :: nat in
      if 48 \<le> n \<and> n \<le> 57 then Some (n - 48)
      else if 97 \<le> n \<and> n \<le> 122 then Some (n - 87)
      else if 65 \<le> n \<and> n \<le> 90 then Some (n - 55)
      else None)"

fun read_digits :: "nat \<Rightarrow> string \<Rightarrow> nat option \<Rightarrow> nat option" where
  "read_digits radix [] acc = acc"
| "read_digits radix (c # cs) acc =
     (case digit_val c of
        None \<Rightarrow> acc
      | Some v \<Rightarrow>
          if v < radix
          then read_digits radix cs (Some ((case acc of None \<Rightarrow> 0 | Some a \<Rightarrow> a) * radix + v))
          else acc)"

definition parse_unsigned :: "string \<Rightarrow> nat option" where
  "parse_unsigned str =
     (if take 2 str = ''0x'' \<or> take 2 str = ''0X''
      then read_digits 16 (drop 2 str) None
      else read_digits 10 str None)"

definition parseInt :: "string \<Rightarrow> int option" where
  "parseInt str =
     (let t = dropWhile is_js_space str in
      case t of
        [] \<Rightarrow> None
      | c # cs \<Rightarrow>
          if c = CHR ''-'' then map_option (\<lambda>n. - int n) (parse_unsigned cs)
          else if c = CHR ''+'' then map_option int (parse_unsigned cs)
          else map_option int (parse_unsigned t))"

text \<open>
  The part of the request the middleware reads. \<open>body_str\<close> is the string the source
  builds in \<open>bodyStr\<close>: the JSON text of the body with its keys sorted, or the empty
  string for an empty body.
\<close>

record request =
  x_signature :: "string option"
  req_method :: string
  original_url :: string
  body_str :: string

text \<open>
  The ways the middleware ends: \<open>next()\<close> with \<open>signatureVerified\<close> false or true, or
  one of the three 401 responses, named by their message:
  \<open>Format tanda tangan tidak valid\<close>, \<open>Tanda tangan sudah kedaluwarsa\<close>,
  \<open>Tanda tangan tidak valid\<close>.
\<close>

datatype signature_outcome =
  SignatureAbsent | InvalidFormat | ExpiredSignature | InvalidSignature | SignatureVerified

definition join_colon :: "string list \<Rightarrow> string" where
  "join_colon xs = (case xs of [] \<Rightarrow> [] | y # ys \<Rightarrow> y @ concat (map (\<lambda>z. CHR '':'' # z) ys))"

text \<open>
  \<open>verifyRequestSignature\<close>. \<open>verifySignature data sig key\<close> is the RSA check of
  crypto.service.js, \<open>pk\<close> the public key of the consumer, \<open>now\<close> the value of
  \<open>Date.now()\<close>. A comparison with \<open>NaN\<close> is false.
\<close>

definition verifyRequestSignature ::
  "(string \<Rightarrow> string \<Rightarrow> string \<Rightarrow> bool) \<Rightarrow> string \<Rightarrow> instant \<Rightarrow> request \<Rightarrow> signature_outcome" where
  "verifyRequestSignature verifySignature pk now req =
     (case x_signature req of
        None \<Rightarrow> SignatureAbsent
      | Some sg \<Rightarrow>
        if sg = [] then SignatureAbsent
        else
        (case split_colon sg of
           [signatureValue, timestamp, nonce] \<Rightarrow>
             let signatureTime = parseInt timestamp;
                 currentTime = now div 1000;
                 timeThreshold = 5 * 60
             in if (case signatureTime of None \<Rightarrow> False
                    | Some t \<Rightarrow> currentTime - t > timeThreshold)
                then ExpiredSignature
                else
                  let signatureData =
                        join_colon [timestamp, nonce, req_method req, original_url req, body_str req]
                  in if \<not> verifySignature signatureData signatureValue pk then InvalidSignature
                     else SignatureVerified
         | _ \<Rightarrow> InvalidFormat))"

section \<open>Provider keys (the ProviderKey model)\<close>

definition findKeyByPk :: "uuid \<Rightarrow> db \<Rightarrow> provider_key option" where
  "findKeyByPk keyId s = find (\<lambda>k. k_id k = keyId) (provider_keys s)"

text \<open>
  \<open>findOne\<close> with \<open>order: [["key_version", "DESC"]]\<close>: a row of greatest version;
  among rows of equal version the first in table order.
\<close>

fun greatest_version :: "provider_key list \<Rightarrow> provider_key option" where
  "greatest_version [] = None"
| "greatest_version (k # ks) =
     (case greatest_version ks of
        None \<Rightarrow> Some k
      | Some m \<Rightarrow> if key_version k < key_version m then Some m else Some k)"

definition findActiveKey :: "db \<Rightarrow> provider_key option" where
  "findActiveKey s = greatest_version (filter (\<lambda>k. status k = Active) (provider_keys s))"

text \<open>\<open>this.max("key_version")\<close>: null on an empty table.\<close>

definition max_key_version :: "provider_key list \<Rightarrow> int option" where
  "max_key_version ks =
     (case ks of
        [] \<Rightarrow> None
      | k # rest \<Rightarrow> Some (fold (\<lambda>x m. max (key_version x) m) rest (key_version k)))"

definition deactivate :: "provider_key \<Rightarrow> provider_key" where
  "deactivate k = (if status k = Active then k\<lparr>status := Inactive\<rparr> else k)"

definition ninety_days :: int where
  "ninety_days = 90 * 24 * 60 * 60 * 1000"

text \<open>
  \<open>rotateKey\<close>. The four statements run in one transaction: reading the greatest
  version, the UPDATE of the active rows, the INSERT and the commit. \<open>fault n\<close> says that
  statement \<open>n\<close> throws; the INSERT also throws when the primary key is taken. The
  \<open>catch\<close> rolls back, so the table of the result is then the one before the call, and
  rethrows. \<open>newId\<close> is the generated UUID, \<open>now\<close> the instant of \<open>new Date()\<close>;
  \<open>setDate(getDate() + 90)\<close> is taken as ninety days of 24 hours. The value
  \<open>updated_at\<close> of the UPDATE is no column of the model and is dropped.
\<close>

definition rotateKey ::
  "(nat \<Rightarrow> bool) \<Rightarrow> uuid \<Rightarrow> instant \<Rightarrow> string \<Rightarrow> string \<Rightarrow> string \<Rightarrow> uuid option \<Rightarrow> db
     \<Rightarrow> (exn + provider_key) \<times> db" where
  "rotateKey fault newId now publicKey privateKeyEncrypted keyAlgorithm createdBy s =
     (if fault 0 then (Inl (Error ''max failed''), s)
      else
        let maxVersionResult = max_key_version (provider_keys s);
            newVersion = (case maxVersionResult of
                            None \<Rightarrow> 0
                          | Some m \<Rightarrow> if m = 0 then 0 else m) + 1
        in if fault 1 then (Inl (Error ''update failed''), s)
           else
             let ks = map deactivate (provider_keys s);
                 validFrom = now;
                 validUntil = now + ninety_days;
                 newKey = \<lparr>k_id = newId, public_key = publicKey,
                            private_key_encrypted = privateKeyEncrypted,
                            key_algorithm = keyAlgorithm, key_version = newVersion,
                            status = Active, valid_from = validFrom,
                            valid_until = Some validUntil, created_by = createdBy\<rparr>
             in if fault 2 then (Inl (Error ''insert failed''), s)
                else if newId \<in> set (map k_id ks) then (Inl (UniqueConstraintError ''id''), s)
                else if fault 3 then (Inl (Error ''commit failed''), s)
                else (Inr newKey, s\<lparr>provider_keys := ks @ [newKey]\<rparr>))"

text \<open>
  \<open>revokeKey\<close>: \<open>key.update\<close> is an UPDATE of the row with the key's primary key;
  \<open>updated_at\<close> and \<open>updated_by\<close> are no columns of the model.
\<close>

definition revokeKey :: "uuid \<Rightarrow> uuid \<Rightarrow> db \<Rightarrow> (exn + bool) \<times> db" where
  "revokeKey keyId updatedBy s =
     (case findKeyByPk keyId s of
        None \<Rightarrow> (Inl (Error ''Key not found''), s)
      | Some key \<Rightarrow>
          (Inr True,
           s\<lparr>provider_keys :=
               map (\<lambda>k. if k_id k = k_id key then k\<lparr>status := Revoked\<rparr> else k)
                 (provider_keys s)\<rparr>))"

text \<open>A history of key operations, each with its arguments.\<close>

datatype key_op =
  Rotate "nat \<Rightarrow> bool" uuid instant string string string "uuid option"
| Revoke uuid uuid

fun apply_key_op :: "key_op \<Rightarrow> db \<Rightarrow> db" where
  "apply_key_op (Rotate fault newId now pub priv alg who) s =
     snd (rotateKey fault newId now pub priv alg who s)"
| "apply_key_op (Revoke keyId who) s = snd (revokeKey keyId who s)"

definition apply_key_ops :: "key_op list \<Rightarrow> db \<Rightarrow> db" where
  "apply_key_ops ops s = fold apply_key_op ops s"

definition status_of :: "uuid \<Rightarrow> db \<Rightarrow> key_status option" where
  "status_of keyId s = map_option status (findKeyByPk keyId s)"

definition active_keys :: "db \<Rightarrow> provider_key list" where
  "active_keys s = filter (\<lambda>k. status k = Active) (provider_keys s)"

section \<open>Tokens (token.model.js, token.service.js)\<close>

definition findTokenByPk :: "uuid \<Rightarrow> db \<Rightarrow> token option" where
  "findTokenByPk tokenId s = find (\<lambda>t. t_id t = tokenId) (tokens s)"

text \<open>
  \<open>Token.findByTokenHash\<close>. The where clause reads \<open>sequelize.Op.gt\<close> on the
  Sequelize instance that \<open>initTokenModel\<close> receives; the instance has no property
  \<open>Op\<close> (the operators are an export of the module), so building the clause throws a
  TypeError before any row is read.
\<close>

definition findByTokenHash :: "instant \<Rightarrow> string \<Rightarrow> db \<Rightarrow> exn + token option" where
  "findByTokenHash now tokenHash s =
     Inl (TypeError ''Cannot read properties of undefined (reading gt)'')"

definition revokeById :: "instant \<Rightarrow> uuid \<Rightarrow> db \<Rightarrow> (exn + bool) \<times> db" where
  "revokeById now tokenId s =
     (case findTokenByPk tokenId s of
        None \<Rightarrow> (Inl (Error ''Token not found''), s)
      | Some tk \<Rightarrow>
          if is_revoked tk then (Inr False, s)
          else (Inr True,
                s\<lparr>tokens :=
                    map (\<lambda>t. if t_id t = t_id tk
                              then t\<lparr>is_revoked := True, revoked_at := Some now\<rparr> else t)
                      (tokens s)\<rparr>))"

text \<open>\<open>revokeToken\<close> of auth.service.js; the payload of a success is its message.\<close>

definition revokeToken :: "instant \<Rightarrow> uuid \<Rightarrow> db \<Rightarrow> string outcome \<times> db" where
  "revokeToken now tokenId s =
     (case revokeById now tokenId s of
        (Inl e, s') \<Rightarrow> (Failure ''SYSTEM_ERROR'' ''An internal system error occurred'', s')
      | (Inr revoked, s') \<Rightarrow>
          if \<not> revoked
          then (Failure ''TOKEN_NOT_FOUND'' ''Token not found or already revoked'', s')
          else (Success ''Token successfully revoked'', s'))"

text \<open>
  \<open>validateTokenFromHeader\<close> of token.service.js; \<open>hashData\<close> is SHA-256 in hex.
  The \<open>catch\<close> turns every exception into SYSTEM_ERROR.
\<close>

definition validateTokenFromHeader ::
  "(string \<Rightarrow> string) \<Rightarrow> instant \<Rightarrow> string option \<Rightarrow> db \<Rightarrow> (token \<times> user) outcome" where
  "validateTokenFromHeader hashData now tokenHeader s =
     (case tokenHeader of
        None \<Rightarrow> Failure ''TOKEN_MISSING'' ''Authentication token is missing''
      | Some hdr \<Rightarrow>
          if hdr = [] then Failure ''TOKEN_MISSING'' ''Authentication token is missing''
          else
            (case split_on CHR '' '' [] hdr of
               [scheme, tokenValue] \<Rightarrow>
                 if scheme \<noteq> ''Bearer''
                 then Failure ''INVALID_TOKEN_FORMAT'' ''Invalid token format''
                 else
                   let tokenHash = hashData tokenValue in
                   (case findByTokenHash now tokenHash s of
                      Inl e \<Rightarrow> Failure ''SYSTEM_ERROR'' ''An internal system error occurred''
                    | Inr None \<Rightarrow> Failure ''TOKEN_NOT_FOUND'' ''Token not found or expired''
                    | Inr (Some tk) \<Rightarrow>
                        (case findUserByPk (t_user_id tk) s of
                           None \<Rightarrow> Failure ''USER_INACTIVE'' ''User is inactive''
                         | Some u \<Rightarrow>
                             if \<not> is_active u then Failure ''USER_INACTIVE'' ''User is inactive''
                             else Success (tk, u)))
             | _ \<Rightarrow> Failure ''INVALID_TOKEN_FORMAT'' ''Invalid token format''))"

section \<open>Authentication (auth.service.js)\<close>

text \<open>
  The payload of a JWT: the fields \<open>authenticateUser\<close> writes, and \<open>nbf\<close>, which
  \<open>jwt.verify\<close> reads when a token carries it. A token made elsewhere may lack
  any of \<open>token_id\<close>, \<open>iat\<close>, \<open>nbf\<close> and \<open>exp\<close>.
\<close>

record jwt_payload =
  sub :: uuid
  jp_username :: string
  jp_consumer :: string
  token_id :: "uuid option"
  iat :: "int option"
  nbf :: "int option"
  exp :: "int option"

text \<open>
  A presented bearer value as jsonwebtoken reads it: \<open>Jwt p k\<close> is the compact
  serialisation of the payload \<open>p\<close> with a signature made under the key \<open>k\<close>, and
  \<open>Malformed\<close> is any other string. A signature verifies under a secret exactly when
  it was made under that secret.
\<close>

datatype jwt = Jwt jwt_payload string | Malformed string

definition jwt_sign :: "jwt_payload \<Rightarrow> string \<Rightarrow> jwt" where
  "jwt_sign payload secret = Jwt payload secret"

text \<open>\<open>jwt.decode\<close> reads the payload and checks nothing.\<close>

fun jwt_decode :: "jwt \<Rightarrow> jwt_payload option" where
  "jwt_decode (Jwt p k) = Some p"
| "jwt_decode (Malformed v) = None"

text \<open>
  \<open>jwt.verify(token, secret)\<close> with no options does not throw: the signature is
  of the secret, and with \<open>clockTimestamp = floor(Date.now() / 1000)\<close> neither
  \<open>nbf > clockTimestamp\<close> nor \<open>clockTimestamp >= exp\<close> holds of a field that is present.
\<close>

fun jwt_verify :: "jwt \<Rightarrow> string \<Rightarrow> instant \<Rightarrow> bool" where
  "jwt_verify (Jwt p k) secret now =
     (k = secret \<and>
      (case nbf p of None \<Rightarrow> True | Some n \<Rightarrow> \<not> n > now div 1000) \<and>
      (case exp p of None \<Rightarrow> True | Some e \<Rightarrow> \<not> now div 1000 \<ge> e))"
| "jwt_verify (Malformed v) secret now = False"

text \<open>
  What the service takes from its libraries and its environment: bcrypt's compare,
  SHA-256, and the variable \<open>JWT_SECRET\<close>.
\<close>

record crypto =
  verifyPassword :: "string \<Rightarrow> string \<Rightarrow> bool"
  hashData :: "string \<Rightarrow> string"
  JWT_SECRET :: "string option"

text \<open>\<open>process.env.JWT_SECRET || "default-jwt-secret"\<close>.\<close>

definition jwt_secret :: "crypto \<Rightarrow> string" where
  "jwt_secret cr = (if falsy (JWT_SECRET cr) then ''default-jwt-secret''
                    else (case JWT_SECRET cr of Some v \<Rightarrow> v | None \<Rightarrow> []))"

record credentials =
  cr_username :: "string option"
  cr_password :: "string option"

record auth_context =
  consumerId :: uuid
  ipAddress :: string
  userAgent :: string
  signatureHeader :: "string option"

text \<open>What one call draws from outside: the clock, the random token, the new UUID.\<close>

record fresh =
  fr_now :: instant
  fr_token_value :: string
  fr_token_id :: uuid

record auth_user =
  au_id :: uuid
  au_username :: string
  au_email :: "string option"
  au_roles :: "string list"

record login_ok =
  lo_token :: jwt
  lo_expiresAt :: instant
  lo_user :: auth_user

definition findConsumerByPk :: "uuid \<Rightarrow> db \<Rightarrow> consumer option" where
  "findConsumerByPk cid s = find (\<lambda>c. c_id c = cid) (consumers s)"

definition findByUsername :: "string \<Rightarrow> db \<Rightarrow> user option" where
  "findByUsername uname s = find (\<lambda>u. username u = uname \<and> is_active u) (users s)"

text \<open>\<open>String.prototype.includes\<close>.\<close>

fun includes_str :: "string \<Rightarrow> string \<Rightarrow> bool" where
  "includes_str pat [] = (pat = [])"
| "includes_str pat (c # cs) = (take (length pat) (c # cs) = pat \<or> includes_str pat cs)"

definition isIpAllowed :: "uuid \<Rightarrow> string \<Rightarrow> db \<Rightarrow> bool" where
  "isIpAllowed cid ip s =
     (case findConsumerByPk cid s of
        None \<Rightarrow> False
      | Some c \<Rightarrow>
          if \<not> c_is_active c then False
          else (case allowed_ips c of
                  None \<Rightarrow> True
                | Some ips \<Rightarrow>
                    if length ips = 0 then True
                    else list_ex (\<lambda>allowedIp. ip = allowedIp \<or> includes_str ''/0'' allowedIp) ips))"

definition one_hour :: int where
  "one_hour = 60 * 60 * 1000"

definition mfa_enabled :: "user \<Rightarrow> bool" where
  "mfa_enabled u = (case mfa u of None \<Rightarrow> False | Some m \<Rightarrow> enabled m)"

text \<open>
  The statements of \<open>authenticateUser\<close> that follow the MFA branch, for the consumer
  and the user found: the reset of the counter, the active key, the token row, the JWT
  and the roles. The INSERT throws when the primary key is taken. \<open>setHours(getHours()
  + 1)\<close> is taken as one hour of 60 minutes.
\<close>

definition authenticateUser_issue ::
  "crypto \<Rightarrow> fresh \<Rightarrow> auth_context \<Rightarrow> consumer \<Rightarrow> user \<Rightarrow> db \<Rightarrow> (exn + login_ok outcome) \<times> db" where
  "authenticateUser_issue cr fr ctx consumer u s =
     (let s2 = updateUser (u_id u)
                 (\<lambda>r. r\<lparr>failed_attempts := 0, last_login := Some (fr_now fr)\<rparr>) s
      in
      (case findActiveKey s2 of
         None \<Rightarrow>
           (Inr (Failure ''CONFIGURATION_ERROR''
                   ''System configuration error: No active signing key''), s2)
       | Some providerKey \<Rightarrow>
           let tokenValue = fr_token_value fr;
               tokenHash = hashData cr tokenValue;
               expiresAt = fr_now fr + one_hour;
               tk = \<lparr>t_id = fr_token_id fr, t_user_id = u_id u,
                     t_consumer_id = c_id consumer, token_hash = tokenHash,
                     signature = ''simulated-signature'',
                     provider_key_id = k_id providerKey,
                     expires_at = expiresAt,
                     meta_ip_address = ipAddress ctx,
                     meta_user_agent = userAgent ctx,
                     meta_issued_at = fr_now fr,
                     is_revoked = False, revoked_at = None\<rparr>
           in if fr_token_id fr \<in> set (map t_id (tokens s2)) then
                (Inl (UniqueConstraintError ''id''), s2)
              else
                let s3 = s2\<lparr>tokens := tokens s2 @ [tk]\<rparr>;
                    jwtPayload = \<lparr>sub = u_id u, jp_username = username u,
                                   jp_consumer = c_name consumer,
                                   token_id = Some (t_id tk),
                                   iat = Some (fr_now fr div 1000),
                                   nbf = None,
                                   exp = Some (expiresAt div 1000)\<rparr>;
                    jwtToken = jwt_sign jwtPayload (jwt_secret cr)
                in (case findUserByPk (u_id u) s3 of
                      None \<Rightarrow> (Inl (TypeError ''userWithRoles is null''), s3)
                    | Some userWithRoles \<Rightarrow>
                        (Inr (Success
                           \<lparr>lo_token = jwtToken, lo_expiresAt = expiresAt,
                             lo_user = \<lparr>au_id = u_id u, au_username = username u,
                                         au_email = email u,
                                         au_roles = roles userWithRoles\<rparr>\<rparr>),
                         s3))))"

text \<open>
  The body of the \<open>try\<close> block of \<open>authenticateUser\<close>: the value returned or the
  exception thrown, and the tables as the statements executed so far left them (the
  function opens no transaction). The signature check of the source is commented out.
  On PostgreSQL, the dialect of database.config.js, \<open>user.increment\<close> is an UPDATE
  with RETURNING whose row Sequelize writes back into the instance, so the test that
  follows reads the count already incremented and adds one again.
  In the MFA branch the condition reads \<open>mfa_code\<close>, an identifier that the function
  neither declares nor receives (it destructures only \<open>username\<close> and \<open>password\<close>),
  so evaluating it throws a ReferenceError.
\<close>

definition authenticateUser_body ::
  "crypto \<Rightarrow> fresh \<Rightarrow> credentials \<Rightarrow> auth_context \<Rightarrow> db \<Rightarrow> (exn + login_ok outcome) \<times> db" where
  "authenticateUser_body cr fr creds ctx s =
     (if falsy (cr_username creds) \<or> falsy (cr_password creds) then
        (Inr (Failure ''INVALID_CREDENTIALS'' ''Username and password are required''), s)
      else
        let uname = (case cr_username creds of Some v \<Rightarrow> v | None \<Rightarrow> []);
            password = (case cr_password creds of Some v \<Rightarrow> v | None \<Rightarrow> [])
        in
        (case findConsumerByPk (consumerId ctx) s of
           None \<Rightarrow> (Inr (Failure ''INVALID_CONSUMER'' ''Invalid or inactive API consumer''), s)
         | Some consumer \<Rightarrow>
           if \<not> c_is_active consumer then
             (Inr (Failure ''INVALID_CONSUMER'' ''Invalid or inactive API consumer''), s)
           else if (case allowed_ips consumer of None \<Rightarrow> False | Some ips \<Rightarrow> length ips > 0)
                   \<and> \<not> isIpAllowed (consumerId ctx) (ipAddress ctx) s then
             (Inr (Failure ''UNAUTHORIZED_IP'' ''Access from this IP address is not allowed''), s)
           else
             (case findByUsername uname s of
                None \<Rightarrow> (Inr (Failure ''INVALID_USER'' ''Invalid username or password''), s)
              | Some u \<Rightarrow>
                if is_locked u then
                  (Inr (Failure ''ACCOUNT_LOCKED''
                          ''Account is locked. Please contact administrator''), s)
                else if \<not> verifyPassword cr password (password_hash u) then
                  let s1 = updateUser (u_id u)
                             (\<lambda>r. r\<lparr>failed_attempts := failed_attempts r + 1\<rparr>) s;
                      refreshed = u\<lparr>failed_attempts := failed_attempts u + 1\<rparr>
                  in if failed_attempts refreshed + 1 \<ge> 5 then
                       (Inr (Failure ''ACCOUNT_LOCKED''
                               ''Too many failed attempts. Account has been locked''),
                        updateUser (u_id u) (\<lambda>r. r\<lparr>is_locked := True\<rparr>) s1)
                     else
                       (Inr (Failure ''INVALID_PASSWORD'' ''Invalid username or password''), s1)
                else if mfa_enabled u then
                  (Inl (ReferenceError ''mfa_code is not defined''), s)
                else authenticateUser_issue cr fr ctx consumer u s)))"

text \<open>\<open>authenticateUser\<close>: the \<open>catch\<close> turns every exception into SYSTEM_ERROR.\<close>

definition authenticateUser ::
  "crypto \<Rightarrow> fresh \<Rightarrow> credentials \<Rightarrow> auth_context \<Rightarrow> db \<Rightarrow> login_ok outcome \<times> db" where
  "authenticateUser cr fr creds ctx s =
     (case authenticateUser_body cr fr creds ctx s of
        (Inl e, s') \<Rightarrow> (Failure ''SYSTEM_ERROR'' ''An internal system error occurred'', s')
      | (Inr r, s') \<Rightarrow> (r, s'))"

text \<open>
  The text of a UUID as PostgreSQL reads it (\<open>string_to_uuid\<close>): an optional opening
  brace, sixteen bytes of two hexadecimal digits each, a hyphen allowed after every
  second byte but the last, and the closing brace if one was opened. \<open>pg_uuid\<close> is
  the value in the text PostgreSQL prints for it, lower case in groups of 8, 4, 4, 4
  and 12 digits, or \<open>None\<close> where the server reports invalid input syntax.
\<close>

definition lower_hex :: "char \<Rightarrow> char option" where
  "lower_hex c =
     (let n = of_char c :: nat in
      if (48 \<le> n \<and> n \<le> 57) \<or> (97 \<le> n \<and> n \<le> 102) then Some c
      else if 65 \<le> n \<and> n \<le> 70 then Some (char_of (n + 32))
      else None)"

fun uuid_digits :: "nat \<Rightarrow> string \<Rightarrow> (string \<times> string) option" where
  "uuid_digits 0 src = Some ([], src)"
| "uuid_digits (Suc n) src =
     (case src of
        a # b # rest \<Rightarrow>
          (case lower_hex a of
             None \<Rightarrow> None
           | Some x \<Rightarrow>
               (case lower_hex b of
                  None \<Rightarrow> None
                | Some y \<Rightarrow>
                    let rest' = (if odd (Suc n) \<and> 0 < n \<and> take 1 rest = ''-''
                                 then drop 1 rest else rest)
                    in (case uuid_digits n rest' of
                          None \<Rightarrow> None
                        | Some (ds, r) \<Rightarrow> Some (x # y # ds, r))))
      | _ \<Rightarrow> None)"

definition pg_uuid :: "string \<Rightarrow> uuid option" where
  "pg_uuid src =
     (let braces = (take 1 src = ''{'');
          body = (if braces then drop 1 src else src)
      in case uuid_digits 16 body of
           None \<Rightarrow> None
         | Some (ds, r) \<Rightarrow>
             if r = (if braces then ''}'' else [])
             then Some (take 8 ds @ ''-'' @ take 4 (drop 8 ds) @ ''-'' @ take 4 (drop 12 ds)
                        @ ''-'' @ take 4 (drop 16 ds) @ ''-'' @ drop 20 ds)
             else None)"

text \<open>
  The body of the \<open>try\<close> block of \<open>verifyToken\<close>: the token is decoded, verified
  under the server's secret, and the record is read by
  \<open>findByPk(decoded.token_id)\<close>, a query on a column of type uuid that the server
  refuses for a text that is no UUID. The function reads no provider key and computes
  no hash.
\<close>

definition verifyToken_body ::
  "crypto \<Rightarrow> instant \<Rightarrow> jwt \<Rightarrow> uuid \<Rightarrow> db \<Rightarrow> exn + auth_user outcome" where
  "verifyToken_body cr now tok cid s =
     (case jwt_decode tok of
        None \<Rightarrow> Inr (Failure ''INVALID_TOKEN'' ''Invalid token format'')
      | Some decoded \<Rightarrow>
          if falsy (token_id decoded) then Inr (Failure ''INVALID_TOKEN'' ''Invalid token format'')
          else if \<not> jwt_verify tok (jwt_secret cr) now then
            Inr (Failure ''INVALID_SIGNATURE'' ''Invalid token signature'')
          else
            (case pg_uuid (case token_id decoded of Some i \<Rightarrow> i | None \<Rightarrow> []) of
               None \<Rightarrow> Inl (DatabaseError ''invalid input syntax for type uuid'')
             | Some tokenId \<Rightarrow>
            (case findTokenByPk tokenId s of
               None \<Rightarrow> Inr (Failure ''TOKEN_NOT_FOUND'' ''Token not found'')
             | Some tokenRecord \<Rightarrow>
                 if is_revoked tokenRecord then
                   Inr (Failure ''TOKEN_REVOKED'' ''Token has been revoked'')
                 else if now > expires_at tokenRecord then
                   Inr (Failure ''TOKEN_EXPIRED'' ''Token has expired'')
                 else if t_consumer_id tokenRecord \<noteq> cid then
                   Inr (Failure ''CONSUMER_MISMATCH'' ''Token was not issued to this consumer'')
                 else
                   (case findUserByPk (t_user_id tokenRecord) s of
                      None \<Rightarrow> Inr (Failure ''USER_UNAVAILABLE'' ''User not found or inactive'')
                    | Some u \<Rightarrow>
                        if \<not> is_active u then
                          Inr (Failure ''USER_UNAVAILABLE'' ''User not found or inactive'')
                        else Inr (Success \<lparr>au_id = u_id u, au_username = username u,
                                            au_email = email u, au_roles = roles u\<rparr>)))))"

text \<open>\<open>verifyToken\<close>: the \<open>catch\<close> turns every exception into SYSTEM_ERROR.\<close>

definition verifyToken :: "crypto \<Rightarrow> instant \<Rightarrow> jwt \<Rightarrow> uuid \<Rightarrow> db \<Rightarrow> auth_user outcome" where
  "verifyToken cr now tok cid s =
     (case verifyToken_body cr now tok cid s of
        Inl e \<Rightarrow> Failure ''SYSTEM_ERROR'' ''An internal system error occurred''
      | Inr r \<Rightarrow> r)"

text \<open>
  The consumer checks of \<open>authenticateUser\<close> pass for this context: the consumer
  exists, is active, and its allow-list, if it has one, admits the address.
\<close>

definition admitted :: "auth_context \<Rightarrow> db \<Rightarrow> bool" where
  "admitted ctx s =
     (case findConsumerByPk (consumerId ctx) s of
        None \<Rightarrow> False
      | Some consumer \<Rightarrow>
          c_is_active consumer \<and>
          \<not> ((case allowed_ips consumer of None \<Rightarrow> False | Some ips \<Rightarrow> length ips > 0)
              \<and> \<not> isIpAllowed (consumerId ctx) (ipAddress ctx) s))"

text \<open>
  A call that reaches the password check for the user named \<open>uname\<close> and fails it:
  both credentials are present, the consumer is admitted, and the password does not
  verify against the stored hash.
\<close>

definition wrong_password_call ::
  "crypto \<Rightarrow> string \<Rightarrow> string \<Rightarrow> db \<Rightarrow> fresh \<times> credentials \<times> auth_context \<Rightarrow> bool" where
  "wrong_password_call cr uname pwhash s call =
     (case call of (fr, creds, ctx) \<Rightarrow>
        cr_username creds = Some uname \<and> uname \<noteq> [] \<and>
        (case cr_password creds of
           None \<Rightarrow> False
         | Some pw \<Rightarrow> pw \<noteq> [] \<and> \<not> verifyPassword cr pw pwhash) \<and>
        admitted ctx s)"

text \<open>Consecutive calls of \<open>authenticateUser\<close>, each on the tables the previous one left.\<close>

fun authenticate_all ::
  "crypto \<Rightarrow> (fresh \<times> credentials \<times> auth_context) list \<Rightarrow> db \<Rightarrow> login_ok outcome list \<times> db" where
  "authenticate_all cr [] s = ([], s)"
| "authenticate_all cr ((fr, creds, ctx) # calls) s =
     (case authenticateUser cr fr creds ctx s of
        (r, s') \<Rightarrow> (case authenticate_all cr calls s' of (rs, s'') \<Rightarrow> (r # rs, s'')))"

section \<open>Concrete inputs\<close>

text \<open>
  A verifier that accepts every signature, one that accepts none, and two signed
  requests.
\<close>

definition accepting_verifier :: "string \<Rightarrow> string \<Rightarrow> string \<Rightarrow> bool" where
  "accepting_verifier signatureData signatureValue key = True"

definition rejecting_verifier :: "string \<Rightarrow> string \<Rightarrow> string \<Rightarrow> bool" where
  "rejecting_verifier signatureData signatureValue key = False"

definition future_request :: request where
  "future_request = \<lparr>x_signature = Some ''c2ln:2000:n1'', req_method = ''POST'',
                      original_url = ''/login'', body_str = []\<rparr>"

definition past_request :: request where
  "past_request = \<lparr>x_signature = Some ''c2ln:1000:n1'', req_method = ''POST'',
                    original_url = ''/login'', body_str = []\<rparr>"

definition no_fault :: "nat \<Rightarrow> bool" where
  "no_fault n = False"

text \<open>
  Stand-ins for the libraries, to run the functions on concrete inputs: a password
  verifies against the hash \<open>bcrypt:\<close> followed by itself, the digest of a string is
  \<open>sha256:\<close> followed by it, and no \<open>JWT_SECRET\<close> is set.
\<close>

definition toy_crypto :: crypto where
  "toy_crypto =
     \<lparr>verifyPassword = (\<lambda>password hash. hash = ''bcrypt:'' @ password),
      hashData = (\<lambda>d. ''sha256:'' @ d),
      JWT_SECRET = None\<rparr>"

text \<open>
  Tables with three users (alice has four failed attempts, bob has MFA enabled,
  carol has none of either), one consumer, a revoked and an active key, and three
  tokens: \<open>tA\<close> of alice, \<open>tB\<close> of bob, and the revoked \<open>tR\<close>.
\<close>

definition alice :: user where
  "alice = \<lparr>u_id = ''u1'', username = ''alice'', email = None,
             password_hash = ''bcrypt:secret'', mfa = None, is_active = True,
             is_locked = False, failed_attempts = 4, last_login = None, roles = [''user'']\<rparr>"

definition bob :: user where
  "bob = \<lparr>u_id = ''u2'', username = ''bob'', email = None,
           password_hash = ''bcrypt:hunter2'',
           mfa = Some \<lparr>enabled = True, preferred_method = Some ''totp'', totp = None\<rparr>,
           is_active = True, is_locked = False, failed_attempts = 0, last_login = None,
           roles = [''admin'']\<rparr>"

definition carol :: user where
  "carol = \<lparr>u_id = ''u3'', username = ''carol'', email = None,
             password_hash = ''bcrypt:pass'', mfa = None, is_active = True,
             is_locked = False, failed_attempts = 0, last_login = None, roles = []\<rparr>"

definition app :: consumer where
  "app = \<lparr>c_id = ''c1'', c_name = ''app'', c_public_key = ''pk'', allowed_ips = None,
           c_is_active = True\<rparr>"

definition key1 :: provider_key where
  "key1 = \<lparr>k_id = ''k1'', public_key = ''pub1'', private_key_encrypted = ''enc1'',
            key_algorithm = ''RSA-2048'', key_version = 1, status = Revoked,
            valid_from = 0, valid_until = Some 100, created_by = None\<rparr>"

definition key2 :: provider_key where
  "key2 = \<lparr>k_id = ''k2'', public_key = ''pub2'', private_key_encrypted = ''enc2'',
            key_algorithm = ''RSA-2048'', key_version = 2, status = Active,
            valid_from = 100, valid_until = Some 200, created_by = None\<rparr>"

definition tokenA :: token where
  "tokenA = \<lparr>t_id = ''tA'', t_user_id = ''u1'', t_consumer_id = ''c1'',
              token_hash = ''sha256:jwt:tB'', signature = ''simulated-signature'',
              provider_key_id = ''k2'', expires_at = 5000, meta_ip_address = ''10.0.0.1'',
              meta_user_agent = ''curl'', meta_issued_at = 1000, is_revoked = False,
              revoked_at = None\<rparr>"

definition tokenB :: token where
  "tokenB = \<lparr>t_id = ''tB'', t_user_id = ''u2'', t_consumer_id = ''c1'',
              token_hash = ''sha256:secretB'', signature = ''simulated-signature'',
              provider_key_id = ''k2'', expires_at = 5000, meta_ip_address = ''10.0.0.1'',
              meta_user_agent = ''curl'', meta_issued_at = 1000, is_revoked = False,
              revoked_at = None\<rparr>"

definition tokenR :: token where
  "tokenR = \<lparr>t_id = ''tR'', t_user_id = ''u2'', t_consumer_id = ''c1'',
              token_hash = ''sha256:secretR'', signature = ''simulated-signature'',
              provider_key_id = ''k2'', expires_at = 5000, meta_ip_address = ''10.0.0.1'',
              meta_user_agent = ''curl'', meta_issued_at = 1000, is_revoked = True,
              revoked_at = Some 2000\<rparr>"

definition tables :: db where
  "tables = \<lparr>users = [alice, bob, carol], consumers = [app],
              tokens = [tokenA, tokenB, tokenR], provider_keys = [key1, key2]\<rparr>"

definition app_context :: auth_context where
  "app_context = \<lparr>consumerId = ''c1'', ipAddress = ''10.0.0.1'', userAgent = ''curl'',
                   signatureHeader = None\<rparr>"

definition login_as :: "string \<Rightarrow> string \<Rightarrow> credentials" where
  "login_as uname pw = \<lparr>cr_username = Some uname, cr_password = Some pw\<rparr>"

definition draw :: "instant \<Rightarrow> uuid \<Rightarrow> fresh" where
  "draw now tokenId = \<lparr>fr_now = now, fr_token_value = ''random'', fr_token_id = tokenId\<rparr>"

text \<open>
  Two token rows under primary keys that are UUIDs, of alice and of bob, the second
  recording a key that is in no table; the tables that hold them; the same tables
  with the two stored hashes exchanged; and the same tables with no provider key.
\<close>

definition token_a :: token where
  "token_a = \<lparr>t_id = ''0a000000-0000-4000-8000-00000000000a'', t_user_id = ''u1'',
               t_consumer_id = ''c1'', token_hash = ''sha256:secretA'',
               signature = ''simulated-signature'', provider_key_id = ''k2'',
               expires_at = 5000, meta_ip_address = ''10.0.0.1'', meta_user_agent = ''curl'',
               meta_issued_at = 1000, is_revoked = False, revoked_at = None\<rparr>"

definition token_b :: token where
  "token_b = \<lparr>t_id = ''0b000000-0000-4000-8000-00000000000b'', t_user_id = ''u2'',
               t_consumer_id = ''c1'', token_hash = ''sha256:secretB'',
               signature = ''simulated-signature'', provider_key_id = ''k0'',
               expires_at = 5000, meta_ip_address = ''10.0.0.1'', meta_user_agent = ''curl'',
               meta_issued_at = 1000, is_revoked = False, revoked_at = None\<rparr>"

definition token_tables :: db where
  "token_tables = tables\<lparr>tokens := [token_a, token_b]\<rparr>"

definition token_tables_hashes_exchanged :: db where
  "token_tables_hashes_exchanged =
     tables\<lparr>tokens := [token_a\<lparr>token_hash := ''sha256:secretB''\<rparr>,
                       token_b\<lparr>token_hash := ''sha256:secretA''\<rparr>]\<rparr>"


text \<open>
  A JWT signed under the default secret that names the token row of bob and carries
  no \<open>exp\<close>, as a holder of the secret can make it.
\<close>

definition jwt_of_token_b :: jwt where
  "jwt_of_token_b =
     Jwt \<lparr>sub = ''u2'', jp_username = ''bob'', jp_consumer = ''app'',
          token_id = Some ''0b000000-0000-4000-8000-00000000000b'', iat = Some 1, nbf = None,
          exp = None\<rparr> ''default-jwt-secret''"

text \<open>
  The login of carol at instant 1000 with a new token id, the JWT it returns, the
  tables it leaves, and the tables after the key rotation that follows.
\<close>

definition carol_draw :: fresh where
  "carol_draw = \<lparr>fr_now = 1000, fr_token_value = ''random'',
                  fr_token_id = ''09000000-0000-4000-8000-000000000009''\<rparr>"


definition token9 :: token where
  "token9 = \<lparr>t_id = ''09000000-0000-4000-8000-000000000009'', t_user_id = ''u3'',
              t_consumer_id = ''c1'',
              token_hash = ''sha256:random'', signature = ''simulated-signature'',
              provider_key_id = ''k2'', expires_at = 3601000,
              meta_ip_address = ''10.0.0.1'', meta_user_agent = ''curl'',
              meta_issued_at = 1000, is_revoked = False, revoked_at = None\<rparr>"

definition jwt9 :: jwt where
  "jwt9 = Jwt \<lparr>sub = ''u3'', jp_username = ''carol'', jp_consumer = ''app'',
               token_id = Some ''09000000-0000-4000-8000-000000000009'', iat = Some 1,
               nbf = None, exp = Some 3601\<rparr> ''default-jwt-secret''"

definition carol_user :: auth_user where
  "carol_user = \<lparr>au_id = ''u3'', au_username = ''carol'', au_email = None, au_roles = []\<rparr>"

definition tables_after_login :: db where
  "tables_after_login =
     tables\<lparr>users := [alice, bob, carol\<lparr>last_login := Some 1000\<rparr>],
            tokens := [tokenA, tokenB, tokenR, token9]\<rparr>"



text \<open>
  A TOTP check that accepts every code, a random tape whose k-th draw is \<open>k\<close>, and
  tables with one user who has set TOTP up and not yet verified it.
\<close>

definition accepting_totp :: "string \<Rightarrow> string \<Rightarrow> instant \<Rightarrow> bool" where
  "accepting_totp secret tok now = True"

definition counting :: "nat \<Rightarrow> nat" where
  "counting k = k"

definition dave :: user where
  "dave = \<lparr>u_id = ''u4'', username = ''dave'', email = None,
            password_hash = ''bcrypt:pw'',
            mfa = Some \<lparr>enabled = False, preferred_method = None,
                        totp = Some \<lparr>totp_secret = ''JBSWY3DPEHPK3PXP'', totp_verified = False,
                                      backup_codes = [], setup_at = Some 500,
                                      verified_at = None\<rparr>\<rparr>,
            is_active = True, is_locked = False, failed_attempts = 0, last_login = None,
            roles = []\<rparr>"

definition totp_tables :: db where
  "totp_tables = \<lparr>users = [dave], consumers = [], tokens = [], provider_keys = []\<rparr>"

section \<open>Backup codes\<close>

lemma upt_10: "[0..<10] = [0, 1, 2, 3, 4, 5, 6, 7, 8, 9]"
  by code_simp

lemma generateBackupCode_unfolded:
  "generateBackupCode rnd k =
     ([pick rnd k, pick rnd (Suc k), pick rnd (Suc (Suc k)), pick rnd (Suc (Suc (Suc k))),
       pick rnd (Suc (Suc (Suc (Suc k))))] @ ''-'' @
      [pick rnd (Suc (Suc (Suc (Suc (Suc k))))),
       pick rnd (Suc (Suc (Suc (Suc (Suc (Suc k)))))),
       pick rnd (Suc (Suc (Suc (Suc (Suc (Suc (Suc k))))))),
       pick rnd (Suc (Suc (Suc (Suc (Suc (Suc (Suc (Suc k))))))))], k + 9)"
  by (simp add: generateBackupCode_def upt_10 backup_step_def)

lemma length_push_codes: "length (push_codes rnd n k acc) = length acc + n"
  by (induction n arbitrary: k acc) (auto split: prod.splits)

lemma set_push_codes:
  "c \<in> set (push_codes rnd n k acc) \<Longrightarrow>
     c \<in> set acc \<or> (\<exists>j. c = fst (generateBackupCode rnd j))"
proof (induction n arbitrary: k acc)
  case 0
  then show ?case by simp
next
  case (Suc n)
  obtain c' k' where g: "generateBackupCode rnd k = (c', k')"
    by (cases "generateBackupCode rnd k")
  with Suc.prems have "c \<in> set (push_codes rnd n k' (acc @ [c']))" by simp
  from Suc.IH [OF this] g show ?case
    by (metis Un_iff fst_conv insert_iff list.set(2) set_append empty_iff list.set(1))
qed

lemma success_codes:
  "verifyAndEnableTOTP totp_ok rnd now userId tok s = (Success codes, s') \<Longrightarrow>
     codes = push_codes rnd 10 0 []"
  by (auto simp: verifyAndEnableTOTP_def Let_def split: option.splits if_splits)

text \<open>
  C9. When \<open>verifyAndEnableTOTP\<close> succeeds it returns exactly ten backup codes, but
  no code has the shape XXXXX-XXXXX that the comment of \<open>generateBackupCode\<close>
  promises: the hyphen takes the place of the character of index 5 instead of being
  put in front of it, so every code is five characters, a hyphen and four characters,
  ten characters in all.
\<close>

theorem backup_codes_have_ten_characters:
  assumes "verifyAndEnableTOTP totp_ok rnd now userId tok s = (Success codes, s')"
  shows "length codes = 10 \<and>
         (\<forall>c \<in> set codes. length c = 10 \<and>
            (\<exists>a b. c = a @ ''-'' @ b \<and> length a = 5 \<and> length b = 4))"
proof -
  have codes: "codes = push_codes rnd 10 0 []" using assms by (rule success_codes)
  have "length codes = 10" unfolding codes by (simp add: length_push_codes)
  moreover have "length c = 10 \<and> (\<exists>a b. c = a @ ''-'' @ b \<and> length a = 5 \<and> length b = 4)"
    if "c \<in> set codes" for c
  proof -
    from that codes obtain j where c: "c = fst (generateBackupCode rnd j)"
      using set_push_codes [of c rnd 10 0 "[]"] by auto
    have "\<exists>a b. c = a @ ''-'' @ b \<and> length a = 5 \<and> length b = 4"
      unfolding c generateBackupCode_unfolded fst_conv by (intro exI conjI, rule refl) simp_all
    moreover have "length c = 10" unfolding c by (simp add: generateBackupCode_unfolded)
    ultimately show ?thesis by blast
  qed
  ultimately show ?thesis by blast
qed

lemma dave_enables_totp:
  "fst (verifyAndEnableTOTP accepting_totp counting 1000 ''u4'' ''123456'' totp_tables)
     = Success [''01234-5678'', ''9ABCD-EFGH'', ''IJKLM-NOPQ'', ''RSTUV-WXYZ'', ''01234-5678'',
                ''9ABCD-EFGH'', ''IJKLM-NOPQ'', ''RSTUV-WXYZ'', ''01234-5678'', ''9ABCD-EFGH'']"
  by code_simp

theorem backup_codes_have_ten_characters_witness:
  "fst (verifyAndEnableTOTP accepting_totp counting 1000 ''u4'' ''123456'' totp_tables)
     = Success [''01234-5678'', ''9ABCD-EFGH'', ''IJKLM-NOPQ'', ''RSTUV-WXYZ'', ''01234-5678'',
                ''9ABCD-EFGH'', ''IJKLM-NOPQ'', ''RSTUV-WXYZ'', ''01234-5678'', ''9ABCD-EFGH''] \<and>
   length ''01234-5678'' = 10"
proof -
  let ?X = "verifyAndEnableTOTP accepting_totp counting 1000 ''u4'' ''123456'' totp_tables"
  let ?codes = "[''01234-5678'', ''9ABCD-EFGH'', ''IJKLM-NOPQ'', ''RSTUV-WXYZ'', ''01234-5678'',
                ''9ABCD-EFGH'', ''IJKLM-NOPQ'', ''RSTUV-WXYZ'', ''01234-5678'', ''9ABCD-EFGH'']"
  have h: "?X = (Success ?codes, snd ?X)"
    using dave_enables_totp by (simp add: prod_eq_iff)
  from backup_codes_have_ten_characters [OF h]
  have "\<forall>c \<in> set ?codes. length c = 10" by blast
  then have "length ''01234-5678'' = 10" by simp
  with dave_enables_totp show ?thesis by simp
qed

section \<open>Request signatures\<close>

lemma split_future: "split_colon ''c2ln:2000:n1'' = [''c2ln'', ''2000'', ''n1'']"
  by (simp add: split_colon_def)

lemma split_past: "split_colon ''c2ln:1000:n1'' = [''c2ln'', ''1000'', ''n1'']"
  by (simp add: split_colon_def)

lemma parseInt_2000: "parseInt ''2000'' = Some 2000"
  by (simp add: parseInt_def parse_unsigned_def digit_val_def is_js_space_def)

lemma parseInt_1000: "parseInt ''1000'' = Some 1000"
  by (simp add: parseInt_def parse_unsigned_def digit_val_def is_js_space_def)

text \<open>
  C7, as stated, fails: a request whose timestamp (2000 s) lies 1000 seconds after the
  clock (1000 s) passes the time check and, its signature verifying, is accepted.
\<close>

theorem future_timestamp_not_expired:
  "parseInt ''2000'' = Some 2000 \<and> \<bar>1000000 div 1000 - (2000::int)\<bar> > 300 \<and>
   verifyRequestSignature accepting_verifier ''pk'' 1000000 future_request = SignatureVerified \<and>
   verifyRequestSignature accepting_verifier ''pk'' 1000000 future_request \<noteq> ExpiredSignature"
  by (simp add: verifyRequestSignature_def future_request_def split_future parseInt_2000
      accepting_verifier_def Let_def join_colon_def)

text \<open>
  C7, amended. For a signature header of three fields the middleware answers that
  the signature has expired exactly when the timestamp parses to a number \<open>t\<close> with
  \<open>now - t > 300\<close> seconds, whatever the verifier would answer. In every other case,
  that of a timestamp in the future, however far, included, the request goes on to
  the cryptographic check, which alone decides: the signature is verified when
  \<open>verifySignature\<close> accepts the payload \<open>timestamp:nonce:method:path:body\<close> under
  the consumer's key, and invalid when it does not.
\<close>

theorem expired_else_signature_check:
  assumes "x_signature req = Some sg" and "sg \<noteq> []"
    and "split_colon sg = [signatureValue, timestamp, nonce]"
  shows "verifyRequestSignature verifier pk now req =
           (if \<exists>t. parseInt timestamp = Some t \<and> now div 1000 - t > 300
            then ExpiredSignature
            else if verifier
                      (join_colon [timestamp, nonce, req_method req, original_url req,
                                   body_str req])
                      signatureValue pk
                 then SignatureVerified
                 else InvalidSignature)"
  using assms by (auto simp: verifyRequestSignature_def Let_def split: option.splits)

theorem expired_else_signature_check_witness:
  "verifyRequestSignature accepting_verifier ''pk'' 1301000 past_request = ExpiredSignature \<and>
   verifyRequestSignature accepting_verifier ''pk'' 1000000 future_request = SignatureVerified \<and>
   verifyRequestSignature rejecting_verifier ''pk'' 1000000 future_request = InvalidSignature \<and>
   verifyRequestSignature rejecting_verifier ''pk'' 1300000 past_request = InvalidSignature"
proof -
  have p1: "x_signature past_request = Some ''c2ln:1000:n1''"
    by (simp add: past_request_def)
  have f1: "x_signature future_request = Some ''c2ln:2000:n1''"
    by (simp add: future_request_def)
  have p2: "''c2ln:1000:n1'' \<noteq> []" and f2: "''c2ln:2000:n1'' \<noteq> []" by simp_all
  have a: "verifyRequestSignature accepting_verifier ''pk'' 1301000 past_request
           = ExpiredSignature"
    using expired_else_signature_check [OF p1 p2 split_past, of accepting_verifier "''pk''" 1301000]
    by (simp add: parseInt_1000)
  have b: "verifyRequestSignature accepting_verifier ''pk'' 1000000 future_request
           = SignatureVerified"
    using expired_else_signature_check [OF f1 f2 split_future, of accepting_verifier "''pk''" 1000000]
    by (simp add: parseInt_2000 accepting_verifier_def)
  have c: "verifyRequestSignature rejecting_verifier ''pk'' 1000000 future_request
           = InvalidSignature"
    using expired_else_signature_check [OF f1 f2 split_future, of rejecting_verifier "''pk''" 1000000]
    by (simp add: parseInt_2000 rejecting_verifier_def)
  have d: "verifyRequestSignature rejecting_verifier ''pk'' 1300000 past_request
           = InvalidSignature"
    using expired_else_signature_check [OF p1 p2 split_past, of rejecting_verifier "''pk''" 1300000]
    by (simp add: parseInt_1000 rejecting_verifier_def)
  from a b c d show ?thesis by blast
qed

section \<open>Lemmas on the tables\<close>

lemmas input_defs =
  no_fault_def toy_crypto_def alice_def bob_def carol_def app_def key1_def
  key2_def tokenA_def tokenB_def tokenR_def tables_def app_context_def login_as_def draw_def

lemma find_map_same:
  "(\<And>x. P (f x) = P x) \<Longrightarrow> find P (map f xs) = map_option f (find P xs)"
  by (induction xs) auto

lemma find_append_Some: "find P xs = Some x \<Longrightarrow> find P (xs @ ys) = Some x"
  by (induction xs) (auto split: if_splits)

lemma find_Some_holds: "find P xs = Some x \<Longrightarrow> P x \<and> x \<in> set xs"
  by (induction xs) (auto split: if_splits)

lemma updateUser_other [simp]:
  "consumers (updateUser uid f s) = consumers s"
  "tokens (updateUser uid f s) = tokens s"
  "provider_keys (updateUser uid f s) = provider_keys s"
  by (simp_all add: updateUser_def)

lemma findConsumerByPk_updateUser [simp]:
  "findConsumerByPk cid (updateUser uid f s) = findConsumerByPk cid s"
  by (simp add: findConsumerByPk_def)

lemma isIpAllowed_updateUser [simp]:
  "isIpAllowed cid ip (updateUser uid f s) = isIpAllowed cid ip s"
  by (simp add: isIpAllowed_def)

lemma admitted_updateUser [simp]: "admitted ctx (updateUser uid f s) = admitted ctx s"
  by (simp add: admitted_def split: option.splits)

lemma wrong_password_call_updateUser [simp]:
  "wrong_password_call cr uname h (updateUser uid f s) call = wrong_password_call cr uname h s call"
  by (simp add: wrong_password_call_def split: prod.splits)

lemma findActiveKey_updateUser [simp]: "findActiveKey (updateUser uid f s) = findActiveKey s"
  by (simp add: findActiveKey_def)

lemma findByUsername_updateUser:
  assumes "\<And>r. username (f r) = username r \<and> is_active (f r) = is_active r \<and> u_id (f r) = u_id r"
  shows "findByUsername uname (updateUser uid f s)
         = map_option (\<lambda>u. if u_id u = uid then f u else u) (findByUsername uname s)"
  unfolding findByUsername_def updateUser_def
  by (simp, rule find_map_same) (simp add: assms)


lemma find_distinct_key:
  "distinct (map f xs) \<Longrightarrow> x \<in> set xs \<Longrightarrow> find (\<lambda>y. f y = f x) xs = Some x"
  by (induction xs) (auto simp: image_iff)


lemma less_imp_div_le:
  fixes a b :: int
  shows "a < b \<Longrightarrow> a div 1000 \<le> b div 1000"
  by (simp add: zdiv_mono1)

section \<open>Provider keys\<close>

lemma fold_max_version:
  "fold (\<lambda>x m. max (key_version x) m) ks a = Max (insert a (key_version ` set ks))"
proof (induction ks arbitrary: a)
  case Nil
  then show ?case by simp
next
  case (Cons k ks)
  have "Max (insert (max (key_version k) a) (key_version ` set ks))
        = Max (insert a (insert (key_version k) (key_version ` set ks)))"
    by (cases "set ks = {}") (auto simp: max.commute max.left_commute max.assoc)
  with Cons show ?case by (simp add: insert_commute)
qed

lemma max_key_version_Max:
  "ks \<noteq> [] \<Longrightarrow> max_key_version ks = Some (Max (key_version ` set ks))"
  by (cases ks) (simp_all add: max_key_version_def fold_max_version)

lemma no_active_after_deactivate: "filter (\<lambda>k. status k = Active) (map deactivate ks) = []"
  by (induction ks) (auto simp: deactivate_def)

lemma k_id_deactivate: "k_id (deactivate k) = k_id k"
  by (simp add: deactivate_def)

text \<open>
  C4. Whatever the keys before it, a call of \<open>rotateKey\<close> either throws and leaves
  the tables as they were (a statement of the transaction failed, or the new id is
  taken), or it returns the new key and the table of keys is the old one with every
  active key made inactive, followed by the new key: active, of version the greatest
  existing version plus one (1 on an empty table), valid from \<open>now\<close> for 90 days. The
  new key is then the only active key.
\<close>

theorem rotateKey_atomic:
  assumes "rotateKey fault newId now publicKey privateKeyEncrypted keyAlgorithm createdBy s = (r, s')"
  shows "(\<exists>e. r = Inl e \<and> s' = s \<and>
            (fault 0 \<or> fault 1 \<or> fault 2 \<or> fault 3 \<or> newId \<in> k_id ` set (provider_keys s)))
       \<or> (\<exists>newKey. r = Inr newKey \<and>
            s' = s\<lparr>provider_keys := map deactivate (provider_keys s) @ [newKey]\<rparr> \<and>
            newKey = \<lparr>k_id = newId, public_key = publicKey,
                      private_key_encrypted = privateKeyEncrypted,
                      key_algorithm = keyAlgorithm,
                      key_version = (if provider_keys s = [] then 1
                                     else Max (key_version ` set (provider_keys s)) + 1),
                      status = Active, valid_from = now,
                      valid_until = Some (now + 90 * 86400000), created_by = createdBy\<rparr> \<and>
            active_keys s' = [newKey] \<and>
            length (provider_keys s') = length (provider_keys s) + 1)"
proof (cases "fault 0 \<or> fault 1 \<or> fault 2 \<or> fault 3 \<or> newId \<in> k_id ` set (provider_keys s)")
  case True
  with assms show ?thesis
    by (auto simp: rotateKey_def Let_def k_id_deactivate image_image split: if_splits)
next
  case False
  have v: "(case max_key_version (provider_keys s) of None \<Rightarrow> 0 | Some m \<Rightarrow> if m = 0 then 0 else m) + 1
           = (if provider_keys s = [] then 1 else Max (key_version ` set (provider_keys s)) + 1)"
    by (cases "provider_keys s = []") (simp_all add: max_key_version_Max, simp add: max_key_version_def)
  from False assms show ?thesis
    unfolding rotateKey_def Let_def v
    by (auto simp: k_id_deactivate image_image active_keys_def no_active_after_deactivate
        ninety_days_def)
qed

theorem rotateKey_atomic_witness:
  "\<exists>newKey. rotateKey no_fault ''k3'' 1000 ''pub3'' ''enc3'' ''RSA-2048'' (Some ''u2'') tables
      = (Inr newKey, tables\<lparr>provider_keys := [key1, key2\<lparr>status := Inactive\<rparr>, newKey]\<rparr>) \<and>
     key_version newKey = 3 \<and> status newKey = Active \<and>
     valid_until newKey = Some 7776001000"
proof -
  let ?X = "rotateKey no_fault ''k3'' 1000 ''pub3'' ''enc3'' ''RSA-2048'' (Some ''u2'') tables"
  have h: "?X = (fst ?X, snd ?X)" by simp
  have fresh: "\<not> (no_fault 0 \<or> no_fault 1 \<or> no_fault 2 \<or> no_fault 3 \<or>
                  ''k3'' \<in> k_id ` set (provider_keys tables))"
    by (simp add: input_defs)
  have keys: "map deactivate (provider_keys tables) = [key1, key2\<lparr>status := Inactive\<rparr>]"
    by (simp add: input_defs deactivate_def)
  have mx: "Max (key_version ` set (provider_keys tables)) = 2"
    by (simp add: input_defs)
  have ne: "provider_keys tables \<noteq> []" by (simp add: input_defs)
  from rotateKey_atomic [OF h] fresh
  obtain newKey where "fst ?X = Inr newKey"
    and "snd ?X = tables\<lparr>provider_keys := map deactivate (provider_keys tables) @ [newKey]\<rparr>"
    and "newKey = \<lparr>k_id = ''k3'', public_key = ''pub3'', private_key_encrypted = ''enc3'',
                    key_algorithm = ''RSA-2048'',
                    key_version = (if provider_keys tables = [] then 1
                                   else Max (key_version ` set (provider_keys tables)) + 1),
                    status = Active, valid_from = 1000,
                    valid_until = Some (1000 + 90 * 86400000), created_by = Some ''u2''\<rparr>"
    by blast
  then have "?X = (Inr newKey, tables\<lparr>provider_keys := [key1, key2\<lparr>status := Inactive\<rparr>, newKey]\<rparr>)
             \<and> key_version newKey = 3 \<and> status newKey = Active
             \<and> valid_until newKey = Some 7776001000"
    using h by (simp add: keys mx ne)
  then show ?thesis by blast
qed

lemma status_of_rotate:
  assumes "status_of keyId s = Some Revoked"
  shows "status_of keyId (snd (rotateKey fault newId now pub priv alg who s)) = Some Revoked"
proof -
  from assms obtain k
    where k: "find (\<lambda>k. k_id k = keyId) (provider_keys s) = Some k" "status k = Revoked"
    by (auto simp: status_of_def findKeyByPk_def)
  have "find (\<lambda>k. k_id k = keyId) (map deactivate (provider_keys s)) = Some k"
    using k by (simp add: find_map_same k_id_deactivate deactivate_def)
  then have "\<And>nk. find (\<lambda>k. k_id k = keyId) (map deactivate (provider_keys s) @ [nk]) = Some k"
    by (rule find_append_Some)
  with k assms show ?thesis
    by (simp add: rotateKey_def Let_def status_of_def findKeyByPk_def)
qed

lemma status_of_revoke:
  assumes "status_of keyId s = Some Revoked"
  shows "status_of keyId (snd (revokeKey other who s)) = Some Revoked"
proof (cases "findKeyByPk other s")
  case None
  with assms show ?thesis by (simp add: revokeKey_def)
next
  case (Some key)
  from assms obtain k
    where k: "find (\<lambda>k. k_id k = keyId) (provider_keys s) = Some k" "status k = Revoked"
    by (auto simp: status_of_def findKeyByPk_def)
  let ?f = "\<lambda>k. if k_id k = k_id key then k\<lparr>status := Revoked\<rparr> else k"
  have "find (\<lambda>k. k_id k = keyId) (map ?f (provider_keys s)) = map_option ?f (Some k)"
    unfolding k(1)[symmetric] by (rule find_map_same) simp
  with k Some show ?thesis
    by (simp add: revokeKey_def status_of_def findKeyByPk_def)
qed

text \<open>
  C8. A key whose status is revoked keeps that status through every sequence of
  \<open>rotateKey\<close> and \<open>revokeKey\<close> calls, whatever their arguments and whether they
  succeed or throw: rotation rewrites only active keys, revocation only writes
  \<open>revoked\<close>.
\<close>

theorem revoked_stays_revoked:
  "status_of keyId s = Some Revoked \<Longrightarrow> status_of keyId (apply_key_ops ops s) = Some Revoked"
  unfolding apply_key_ops_def
proof (induction ops arbitrary: s)
  case Nil
  then show ?case by simp
next
  case (Cons op ops)
  have "status_of keyId (apply_key_op op s) = Some Revoked"
    using Cons.prems by (cases op) (simp_all add: status_of_rotate status_of_revoke)
  then show ?case using Cons.IH by simp
qed

theorem revoked_stays_revoked_witness:
  "status_of ''k1'' tables = Some Revoked \<and>
   status_of ''k1''
     (apply_key_ops
        [Rotate no_fault ''k3'' 1000 ''pub3'' ''enc3'' ''RSA-2048'' None,
         Revoke ''k2'' ''u2'', Revoke ''k1'' ''u2'',
         Rotate no_fault ''k4'' 2000 ''pub4'' ''enc4'' ''RSA-4096'' (Some ''u2'')]
        tables) = Some Revoked"
proof -
  have h: "status_of ''k1'' tables = Some Revoked"
    by (simp add: status_of_def findKeyByPk_def input_defs)
  show ?thesis using h revoked_stays_revoked [OF h] by simp
qed

section \<open>Tokens\<close>

lemma tables_tokenB: "findTokenByPk ''tB'' tables = Some tokenB"
  by (simp add: findTokenByPk_def input_defs)

text \<open>
  C6, as stated, fails: the first revocation of the token \<open>tB\<close> succeeds, and the
  second returns a failure with the code TOKEN_NOT_FOUND, not a success.
\<close>

theorem second_revoke_is_failure:
  "fst (revokeToken 3000 ''tB'' tables) = Success ''Token successfully revoked'' \<and>
   fst (revokeToken 4000 ''tB'' (snd (revokeToken 3000 ''tB'' tables)))
     = Failure ''TOKEN_NOT_FOUND'' ''Token not found or already revoked'' \<and>
   \<not> is_success (fst (revokeToken 4000 ''tB'' (snd (revokeToken 3000 ''tB'' tables))))"
  by (simp add: revokeToken_def revokeById_def findTokenByPk_def input_defs)

text \<open>
  C6, amended. For an existing token that is not revoked, the first \<open>revokeToken\<close>
  succeeds and leaves the row revoked with the instant of the call; a second call
  returns the failure TOKEN_NOT_FOUND (\<open>Token not found or already revoked\<close>) and
  leaves the tables as the first call left them.
\<close>

theorem revoke_twice:
  assumes "findTokenByPk tokenId s = Some tk" and "\<not> is_revoked tk"
  shows "fst (revokeToken now1 tokenId s) = Success ''Token successfully revoked'' \<and>
         findTokenByPk tokenId (snd (revokeToken now1 tokenId s))
           = Some (tk\<lparr>is_revoked := True, revoked_at := Some now1\<rparr>) \<and>
         revokeToken now2 tokenId (snd (revokeToken now1 tokenId s))
           = (Failure ''TOKEN_NOT_FOUND'' ''Token not found or already revoked'',
              snd (revokeToken now1 tokenId s))"
proof -
  let ?f = "\<lambda>t. if t_id t = t_id tk then t\<lparr>is_revoked := True, revoked_at := Some now1\<rparr> else t"
  let ?s1 = "s\<lparr>tokens := map ?f (tokens s)\<rparr>"
  have id: "t_id tk = tokenId"
    using assms(1) by (auto simp: findTokenByPk_def dest: find_Some_holds)
  have first: "revokeToken now1 tokenId s = (Success ''Token successfully revoked'', ?s1)"
    using assms by (simp add: revokeToken_def revokeById_def)
  have "find (\<lambda>t. t_id t = tokenId) (map ?f (tokens s))
        = map_option ?f (find (\<lambda>t. t_id t = tokenId) (tokens s))"
    by (rule find_map_same) simp
  then have found: "findTokenByPk tokenId ?s1
                    = Some (tk\<lparr>is_revoked := True, revoked_at := Some now1\<rparr>)"
    using assms(1) id by (simp add: findTokenByPk_def)
  have second: "revokeToken now2 tokenId ?s1
                = (Failure ''TOKEN_NOT_FOUND'' ''Token not found or already revoked'', ?s1)"
    using found by (simp add: revokeToken_def revokeById_def)
  show ?thesis using first found second by simp
qed

theorem revoke_twice_witness:
  "findTokenByPk ''tB'' (snd (revokeToken 3000 ''tB'' tables))
     = Some (tokenB\<lparr>is_revoked := True, revoked_at := Some 3000\<rparr>) \<and>
   revokeToken 4000 ''tB'' (snd (revokeToken 3000 ''tB'' tables))
     = (Failure ''TOKEN_NOT_FOUND'' ''Token not found or already revoked'',
        snd (revokeToken 3000 ''tB'' tables))"
proof -
  have h: "\<not> is_revoked tokenB" by (simp add: tokenB_def)
  show ?thesis using revoke_twice [OF tables_tokenB h, of 3000 4000] by simp
qed

section \<open>Authentication\<close>

lemma wrong_attempt:
  assumes found: "findByUsername uname s = Some u" and unl: "\<not> is_locked u"
    and call: "wrong_password_call cr uname (password_hash u) s (fr, creds, ctx)"
  shows "authenticateUser cr fr creds ctx s =
           (if failed_attempts u \<ge> 3
            then (Failure ''ACCOUNT_LOCKED'' ''Too many failed attempts. Account has been locked'',
                  updateUser (u_id u) (\<lambda>r. r\<lparr>is_locked := True\<rparr>)
                    (updateUser (u_id u) (\<lambda>r. r\<lparr>failed_attempts := failed_attempts r + 1\<rparr>) s))
            else (Failure ''INVALID_PASSWORD'' ''Invalid username or password'',
                  updateUser (u_id u) (\<lambda>r. r\<lparr>failed_attempts := failed_attempts r + 1\<rparr>) s))"
  using assms
  by (auto simp: authenticateUser_def authenticateUser_body_def wrong_password_call_def
      admitted_def Let_def split: option.splits)

lemma wrong_attempt_row:
  assumes found: "findByUsername uname s = Some u"
  shows "findByUsername uname
           (updateUser (u_id u) (\<lambda>r. r\<lparr>failed_attempts := failed_attempts r + 1\<rparr>) s)
         = Some (u\<lparr>failed_attempts := failed_attempts u + 1\<rparr>)"
    and "findByUsername uname
           (updateUser (u_id u) (\<lambda>r. r\<lparr>is_locked := True\<rparr>)
              (updateUser (u_id u) (\<lambda>r. r\<lparr>failed_attempts := failed_attempts r + 1\<rparr>) s))
         = Some (u\<lparr>failed_attempts := failed_attempts u + 1, is_locked := True\<rparr>)"
proof -
  let ?inc = "\<lambda>r. r\<lparr>failed_attempts := failed_attempts r + 1\<rparr>"
  let ?s1 = "updateUser (u_id u) ?inc s"
  have "findByUsername uname ?s1
        = map_option (\<lambda>r. if u_id r = u_id u then ?inc r else r) (findByUsername uname s)"
    by (rule findByUsername_updateUser) simp
  then show f1: "findByUsername uname ?s1 = Some (?inc u)"
    unfolding found by simp
  have "findByUsername uname (updateUser (u_id u) (\<lambda>r. r\<lparr>is_locked := True\<rparr>) ?s1)
        = map_option (\<lambda>r. if u_id r = u_id u then r\<lparr>is_locked := True\<rparr> else r)
            (findByUsername uname ?s1)"
    by (rule findByUsername_updateUser) simp
  then show "findByUsername uname (updateUser (u_id u) (\<lambda>r. r\<lparr>is_locked := True\<rparr>) ?s1)
             = Some (u\<lparr>failed_attempts := failed_attempts u + 1, is_locked := True\<rparr>)"
    unfolding f1 by simp
qed

text \<open>
  The part of C1 that holds of the code: for an unlocked user with a stored count of
  4 (of 3 or more), one wrong password returns ACCOUNT_LOCKED and leaves the user
  locked with the count raised by one.
\<close>

lemma wrong_password_at_count_of_three_or_more:
  assumes "findByUsername uname s = Some u" and "\<not> is_locked u"
    and "3 \<le> failed_attempts u"
    and "wrong_password_call cr uname (password_hash u) s (fr, creds, ctx)"
  shows "code_of (fst (authenticateUser cr fr creds ctx s)) = Some ''ACCOUNT_LOCKED'' \<and>
         findByUsername uname (snd (authenticateUser cr fr creds ctx s))
           = Some (u\<lparr>failed_attempts := failed_attempts u + 1, is_locked := True\<rparr>)"
  using wrong_attempt [OF assms(1) assms(2) assms(4)] wrong_attempt_row(2) [OF assms(1)] assms(3)
  by simp

text \<open>
  C1. The claim holds of a stored count of 4, but not of the five attempts: the test
  after \<open>user.increment\<close> reads the count already incremented and adds one again, so
  the account is locked one attempt early. For an unlocked user with a stored count
  \<open>k\<close> of at most 3, of consecutive calls that reach the password check with a
  password that does not verify, the first \<open>3 - k\<close> return INVALID_PASSWORD and the
  next returns ACCOUNT_LOCKED and leaves the user locked with a count of 4: from a
  count of 0 the fourth wrong password locks the account, against the comment of the
  source, which locks after five failed attempts.
\<close>

theorem fourth_wrong_password_locks:
  assumes "findByUsername uname s = Some u" and "\<not> is_locked u"
    and "failed_attempts u \<le> 3"
    and "length calls = nat (4 - failed_attempts u)"
    and "list_all (wrong_password_call cr uname (password_hash u) s) calls"
  shows "map code_of (fst (authenticate_all cr calls s))
           = replicate (nat (3 - failed_attempts u)) (Some ''INVALID_PASSWORD'')
             @ [Some ''ACCOUNT_LOCKED'']
         \<and> findByUsername uname (snd (authenticate_all cr calls s))
           = Some (u\<lparr>failed_attempts := 4, is_locked := True\<rparr>)"
  using assms
proof (induction calls arbitrary: s u)
  case Nil
  then show ?case by simp
next
  case (Cons call calls)
  obtain fr creds ctx where call: "call = (fr, creds, ctx)" by (cases call)
  let ?inc = "\<lambda>r. r\<lparr>failed_attempts := failed_attempts r + 1\<rparr>"
  let ?s1 = "updateUser (u_id u) ?inc s"
  from Cons.prems(5) call
  have wc: "wrong_password_call cr uname (password_hash u) s (fr, creds, ctx)"
    and rest: "list_all (wrong_password_call cr uname (password_hash u) s) calls" by simp_all
  note step = wrong_attempt [OF Cons.prems(1) Cons.prems(2) wc]
  note rows = wrong_attempt_row [OF Cons.prems(1)]
  show ?case
  proof (cases "failed_attempts u = 3")
    case True
    with Cons.prems(4) have "calls = []" by simp
    then show ?thesis using step rows(2) True call by simp
  next
    case False
    with Cons.prems(3) have lt: "failed_attempts u < 3" by simp
    have p2: "\<not> is_locked (?inc u)" using Cons.prems(2) by simp
    have p3: "failed_attempts (?inc u) \<le> 3" using lt by simp
    have p4: "length calls = nat (4 - failed_attempts (?inc u))"
      using Cons.prems(4) lt by simp
    have p5: "list_all (wrong_password_call cr uname (password_hash (?inc u)) ?s1) calls"
      using rest by (simp add: list_all_iff)
    note IH = Cons.IH [OF rows(1) p2 p3 p4 p5]
    have r: "replicate (nat (3 - failed_attempts u)) (Some ''INVALID_PASSWORD'')
             = Some ''INVALID_PASSWORD''
               # replicate (nat (3 - failed_attempts (?inc u))) (Some ''INVALID_PASSWORD'')"
    proof -
      have "nat (3 - failed_attempts u) = Suc (nat (3 - failed_attempts (?inc u)))"
        using lt by simp
      then show ?thesis by simp
    qed
    have st: "authenticateUser cr fr creds ctx s
              = (Failure ''INVALID_PASSWORD'' ''Invalid username or password'', ?s1)"
      using step lt by simp
    obtain rs sf where rec: "authenticate_all cr calls ?s1 = (rs, sf)"
      by (cases "authenticate_all cr calls ?s1")
    show ?thesis
      using IH unfolding call r rec by (simp add: st rec)
  qed
qed

lemma tables_admitted: "admitted app_context tables"
  by (simp add: admitted_def findConsumerByPk_def input_defs)

theorem fourth_wrong_password_locks_witness:
  "map code_of (fst (authenticate_all toy_crypto
       [(draw 1000 ''t1'', login_as ''carol'' ''a'', app_context),
        (draw 2000 ''t2'', login_as ''carol'' ''b'', app_context),
        (draw 3000 ''t3'', login_as ''carol'' ''c'', app_context),
        (draw 4000 ''t4'', login_as ''carol'' ''d'', app_context)] tables))
     = [Some ''INVALID_PASSWORD'', Some ''INVALID_PASSWORD'', Some ''INVALID_PASSWORD'',
        Some ''ACCOUNT_LOCKED''] \<and>
   findByUsername ''carol'' (snd (authenticate_all toy_crypto
       [(draw 1000 ''t1'', login_as ''carol'' ''a'', app_context),
        (draw 2000 ''t2'', login_as ''carol'' ''b'', app_context),
        (draw 3000 ''t3'', login_as ''carol'' ''c'', app_context),
        (draw 4000 ''t4'', login_as ''carol'' ''d'', app_context)] tables))
     = Some (carol\<lparr>failed_attempts := 4, is_locked := True\<rparr>)"
proof -
  have c1: "findByUsername ''carol'' tables = Some carol"
    by (simp add: findByUsername_def input_defs)
  have c2: "\<not> is_locked carol" and c3: "failed_attempts carol \<le> 3"
    by (simp_all add: carol_def)
  let ?calls = "[(draw 1000 ''t1'', login_as ''carol'' ''a'', app_context),
                 (draw 2000 ''t2'', login_as ''carol'' ''b'', app_context),
                 (draw 3000 ''t3'', login_as ''carol'' ''c'', app_context),
                 (draw 4000 ''t4'', login_as ''carol'' ''d'', app_context)]"
  have c4: "length ?calls = nat (4 - failed_attempts carol)"
    by (simp add: carol_def)
  have c5: "list_all (wrong_password_call toy_crypto ''carol'' (password_hash carol) tables) ?calls"
    using tables_admitted
    by (simp add: wrong_password_call_def login_as_def toy_crypto_def carol_def)
  have three: "replicate (nat (3 - failed_attempts carol)) (Some ''INVALID_PASSWORD'')
               = [Some ''INVALID_PASSWORD'', Some ''INVALID_PASSWORD'', Some ''INVALID_PASSWORD'']"
    by (simp add: carol_def eval_nat_numeral)
  show ?thesis
    using fourth_wrong_password_locks [OF c1 c2 c3 c4 c5]
    unfolding three by simp
qed

text \<open>
  C10. For a user found under the name given whose MFA is enabled, a call of
  \<open>authenticateUser\<close> with the password that verifies leaves the tables as they
  were (no counter reset, no last login, no token), never succeeds and never returns
  MFA_REQUIRED; when the call reaches the MFA branch (credentials present, consumer
  admitted, account not locked) the reference to the undefined \<open>mfa_code\<close> throws and
  the result is SYSTEM_ERROR.
\<close>

theorem mfa_user_gets_system_error:
  assumes "findByUsername uname s = Some u" and "mfa_enabled u"
    and "cr_username creds = Some uname" and "cr_password creds = Some pw"
    and "verifyPassword cr pw (password_hash u)"
  shows "snd (authenticateUser cr fr creds ctx s) = s \<and>
         \<not> is_success (fst (authenticateUser cr fr creds ctx s)) \<and>
         code_of (fst (authenticateUser cr fr creds ctx s)) \<noteq> Some ''MFA_REQUIRED'' \<and>
         (uname \<noteq> [] \<and> pw \<noteq> [] \<and> admitted ctx s \<and> \<not> is_locked u \<longrightarrow>
            fst (authenticateUser cr fr creds ctx s)
              = Failure ''SYSTEM_ERROR'' ''An internal system error occurred'')"
  using assms
  by (auto simp: authenticateUser_def authenticateUser_body_def admitted_def Let_def
      split: option.splits)

theorem mfa_user_gets_system_error_witness:
  "authenticateUser toy_crypto (draw 1000 ''t1'') (login_as ''bob'' ''hunter2'') app_context tables
     = (Failure ''SYSTEM_ERROR'' ''An internal system error occurred'', tables)"
proof -
  have h1: "findByUsername ''bob'' tables = Some bob"
    by (simp add: findByUsername_def input_defs)
  have h2: "mfa_enabled bob" by (simp add: mfa_enabled_def bob_def)
  have h3: "cr_username (login_as ''bob'' ''hunter2'') = Some ''bob''"
    and h4: "cr_password (login_as ''bob'' ''hunter2'') = Some ''hunter2''"
    by (simp_all add: login_as_def)
  have h5: "verifyPassword toy_crypto ''hunter2'' (password_hash bob)"
    by (simp add: toy_crypto_def bob_def)
  have h6: "\<not> is_locked bob" by (simp add: bob_def)
  show ?thesis
    using mfa_user_gets_system_error [OF h1 h2 h3 h4 h5, of "draw 1000 ''t1''" app_context]
      tables_admitted h6
    by (simp add: prod_eq_iff)
qed

section \<open>Token verification\<close>


lemma pg_uuid_empty: "pg_uuid [] = None"
  by code_simp

lemma jwt_secret_update [simp]: "jwt_secret (cr\<lparr>hashData := h\<rparr>) = jwt_secret cr"
  by (simp add: jwt_secret_def)

text \<open>
  \<open>verifyToken\<close> reads of the tables the users and, of every token row, its id, its
  user, its consumer, its revocation flag and its expiry, and nothing else.
\<close>

lemma verifyToken_reads:
  assumes u: "users s' = users s" and t: "tokens s' = map f (tokens s)"
    and f: "\<And>t. t_id (f t) = t_id t \<and> t_user_id (f t) = t_user_id t \<and>
                 t_consumer_id (f t) = t_consumer_id t \<and> is_revoked (f t) = is_revoked t \<and>
                 expires_at (f t) = expires_at t"
    and k: "jwt_secret cr' = jwt_secret cr"
  shows "verifyToken cr' now tok cid s' = verifyToken cr now tok cid s"
proof -
  have a: "findTokenByPk i s' = map_option f (findTokenByPk i s)" for i
    unfolding findTokenByPk_def t by (rule find_map_same) (simp add: f)
  have b: "findUserByPk i s' = findUserByPk i s" for i
    by (simp add: findUserByPk_def u)
  have "verifyToken_body cr' now tok cid s' = verifyToken_body cr now tok cid s"
    unfolding verifyToken_body_def a b k
    by (auto simp: f split: option.splits)
  then show ?thesis by (simp add: verifyToken_def)
qed


text \<open>
  C2, as stated, fails. The presented JWT decodes to the id of the token row of bob:
  \<open>verifyToken\<close> uses that row and returns bob, and it does so as well when the
  hashes stored in the rows of alice and of bob are exchanged, so the row is not found
  by a hash.
\<close>

theorem verifyToken_looks_up_by_decoded_id:
  "map_option token_id (jwt_decode jwt_of_token_b) = Some (Some (t_id token_b)) \<and>
   verifyToken toy_crypto 3000 jwt_of_token_b ''c1'' token_tables
     = Success \<lparr>au_id = ''u2'', au_username = ''bob'', au_email = None, au_roles = [''admin'']\<rparr> \<and>
   verifyToken toy_crypto 3000 jwt_of_token_b ''c1'' token_tables_hashes_exchanged
     = Success \<lparr>au_id = ''u2'', au_username = ''bob'', au_email = None, au_roles = [''admin'']\<rparr>"
  by code_simp

text \<open>
  C2, amended. \<open>verifyToken\<close> looks the stored record up by the token id decoded
  from the presented JWT, once \<open>jwt.verify\<close> has accepted the JWT: whenever it
  succeeds, the JWT decoded to a token id that is the text of a UUID, \<open>jwt.verify\<close>
  accepted the JWT under the server's secret, the record used is the one stored
  under that id, and the user returned is the user of that record. Its result
  depends neither on the hash function nor on the hashes stored in the token rows.
\<close>

theorem verifyToken_lookup:
  "(verifyToken cr now tok cid s = Success au \<longrightarrow>
      (\<exists>d tid tokenId r u.
          jwt_decode tok = Some d \<and> token_id d = Some tid \<and>
          jwt_verify tok (jwt_secret cr) now \<and> pg_uuid tid = Some tokenId \<and>
          findTokenByPk tokenId s = Some r \<and> t_id r = tokenId \<and>
          findUserByPk (t_user_id r) s = Some u \<and>
          au = \<lparr>au_id = u_id u, au_username = username u, au_email = email u,
                 au_roles = roles u\<rparr>)) \<and>
   verifyToken (cr\<lparr>hashData := h\<rparr>) now tok cid
       (s\<lparr>tokens := map (\<lambda>t. t\<lparr>token_hash := g t\<rparr>) (tokens s)\<rparr>)
     = verifyToken cr now tok cid s"
proof -
  have a: "verifyToken cr now tok cid s = Success au \<Longrightarrow>
      (\<exists>d tid tokenId r u.
          jwt_decode tok = Some d \<and> token_id d = Some tid \<and>
          jwt_verify tok (jwt_secret cr) now \<and> pg_uuid tid = Some tokenId \<and>
          findTokenByPk tokenId s = Some r \<and> t_id r = tokenId \<and>
          findUserByPk (t_user_id r) s = Some u \<and>
          au = \<lparr>au_id = u_id u, au_username = username u, au_email = email u,
                 au_roles = roles u\<rparr>)"
    by (auto simp: verifyToken_def verifyToken_body_def findTokenByPk_def
        split: option.splits if_splits sum.splits dest: find_Some_holds)
  have b: "verifyToken (cr\<lparr>hashData := h\<rparr>) now tok cid
             (s\<lparr>tokens := map (\<lambda>t. t\<lparr>token_hash := g t\<rparr>) (tokens s)\<rparr>)
           = verifyToken cr now tok cid s"
    by (rule verifyToken_reads [where f = "\<lambda>t. t\<lparr>token_hash := g t\<rparr>"]) simp_all
  from a b show ?thesis by blast
qed

theorem verifyToken_lookup_witness:
  "(\<exists>r u. findTokenByPk ''0b000000-0000-4000-8000-00000000000b'' token_tables = Some r \<and>
          findUserByPk (t_user_id r) token_tables = Some u \<and> username u = ''bob'') \<and>
   verifyToken (toy_crypto\<lparr>hashData := (\<lambda>d. d)\<rparr>) 3000 jwt_of_token_b ''c1''
       (token_tables\<lparr>tokens := map (\<lambda>t. t\<lparr>token_hash := []\<rparr>) (tokens token_tables)\<rparr>)
     = Success \<lparr>au_id = ''u2'', au_username = ''bob'', au_email = None, au_roles = [''admin'']\<rparr>"
proof -
  let ?bob = "\<lparr>au_id = ''u2'', au_username = ''bob'', au_email = None, au_roles = [''admin'']\<rparr>"
  have v: "verifyToken toy_crypto 3000 jwt_of_token_b ''c1'' token_tables = Success ?bob"
    by code_simp
  have d: "jwt_decode jwt_of_token_b
           = Some \<lparr>sub = ''u2'', jp_username = ''bob'', jp_consumer = ''app'',
                    token_id = Some ''0b000000-0000-4000-8000-00000000000b'', iat = Some 1,
                    nbf = None, exp = None\<rparr>"
    by (simp add: jwt_of_token_b_def)
  have p: "pg_uuid ''0b000000-0000-4000-8000-00000000000b''
           = Some ''0b000000-0000-4000-8000-00000000000b''"
    by code_simp
  note inst = verifyToken_lookup [of toy_crypto 3000 jwt_of_token_b "''c1''" token_tables ?bob
      "\<lambda>d. d" "\<lambda>t. []"]
  from inst v obtain dd tid tokenId r u
    where "jwt_decode jwt_of_token_b = Some dd" and "token_id dd = Some tid"
      and "pg_uuid tid = Some tokenId" and "findTokenByPk tokenId token_tables = Some r"
      and "findUserByPk (t_user_id r) token_tables = Some u"
      and "?bob = \<lparr>au_id = u_id u, au_username = username u, au_email = email u,
                    au_roles = roles u\<rparr>"
    by blast
  with d p have 1: "\<exists>r u. findTokenByPk ''0b000000-0000-4000-8000-00000000000b'' token_tables
                       = Some r \<and>
                     findUserByPk (t_user_id r) token_tables = Some u \<and> username u = ''bob''"
    by auto
  from inst v have 2: "verifyToken (toy_crypto\<lparr>hashData := (\<lambda>d. d)\<rparr>) 3000 jwt_of_token_b ''c1''
       (token_tables\<lparr>tokens := map (\<lambda>t. t\<lparr>token_hash := []\<rparr>) (tokens token_tables)\<rparr>)
     = Success ?bob"
    by simp
  from 1 2 show ?thesis by blast
qed

text \<open>
  What a successful login leaves and returns: an active key was found, the id drawn
  was free, the token row is appended to the tables in which the counter of the user
  is reset, and the JWT carries the id of the row and its expiry in seconds.
\<close>

lemma issue_success:
  assumes "authenticateUser_issue cr fr ctx consumer u s = (Inr (Success ok), s')"
  shows "\<exists>pk w.
           findActiveKey s = Some pk \<and> fr_token_id fr \<notin> set (map t_id (tokens s)) \<and>
           users s' = users (updateUser (u_id u)
                        (\<lambda>r. r\<lparr>failed_attempts := 0, last_login := Some (fr_now fr)\<rparr>) s) \<and>
           consumers s' = consumers s \<and> provider_keys s' = provider_keys s \<and>
           tokens s' = tokens s @
             [\<lparr>t_id = fr_token_id fr, t_user_id = u_id u, t_consumer_id = c_id consumer,
               token_hash = hashData cr (fr_token_value fr),
               signature = ''simulated-signature'', provider_key_id = k_id pk,
               expires_at = fr_now fr + one_hour, meta_ip_address = ipAddress ctx,
               meta_user_agent = userAgent ctx, meta_issued_at = fr_now fr,
               is_revoked = False, revoked_at = None\<rparr>] \<and>
           findUserByPk (u_id u) s' = Some w \<and>
           ok = \<lparr>lo_token = Jwt \<lparr>sub = u_id u, jp_username = username u,
                                  jp_consumer = c_name consumer,
                                  token_id = Some (fr_token_id fr),
                                  iat = Some (fr_now fr div 1000), nbf = None,
                                  exp = Some ((fr_now fr + one_hour) div 1000)\<rparr>
                              (jwt_secret cr),
                 lo_expiresAt = fr_now fr + one_hour,
                 lo_user = \<lparr>au_id = u_id u, au_username = username u, au_email = email u,
                             au_roles = roles w\<rparr>\<rparr>"
proof (cases "findActiveKey s")
  case None
  with assms show ?thesis
    by (simp add: authenticateUser_issue_def Let_def)
next
  case (Some pk)
  with assms show ?thesis
    by (auto simp: authenticateUser_issue_def Let_def jwt_sign_def findUserByPk_def
        split: if_splits option.splits)
qed

lemma login_success:
  assumes "authenticateUser cr fr creds ctx s = (Success ok, s')"
  shows "\<exists>consumer u uname.
           findConsumerByPk (consumerId ctx) s = Some consumer \<and>
           findByUsername uname s = Some u \<and>
           authenticateUser_issue cr fr ctx consumer u s = (Inr (Success ok), s')"
proof -
  from assms have "authenticateUser_body cr fr creds ctx s = (Inr (Success ok), s')"
    by (auto simp: authenticateUser_def split: prod.splits sum.splits)
  then show ?thesis
    by (auto simp: authenticateUser_body_def Let_def split: if_splits option.splits)
qed


text \<open>
  C3. The claim fails of every token the program issues, in its case of expiry: the
  JWT that \<open>authenticateUser\<close> returns carries \<open>exp\<close>, the expiry of the row in
  seconds, and \<open>jwt.verify\<close> refuses it from that second on, so once the row has
  expired \<open>verifyToken\<close> answers INVALID_SIGNATURE, on whatever tables, and never
  reaches the test that answers TOKEN_EXPIRED.
\<close>

theorem expired_issued_token_is_invalid_signature:
  assumes "authenticateUser cr fr creds ctx s = (Success ok, s')"
    and "fr_token_id fr \<noteq> []"
    and "now > lo_expiresAt ok"
  shows "verifyToken cr now (lo_token ok) cid s''
         = Failure ''INVALID_SIGNATURE'' ''Invalid token signature''"
proof -
  from login_success [OF assms(1)] obtain consumer u
    where "authenticateUser_issue cr fr ctx consumer u s = (Inr (Success ok), s')"
    by blast
  from issue_success [OF this]
  have tok: "lo_token ok = Jwt \<lparr>sub = u_id u, jp_username = username u,
                                jp_consumer = c_name consumer,
                                token_id = Some (fr_token_id fr),
                                iat = Some (fr_now fr div 1000), nbf = None,
                                exp = Some ((fr_now fr + one_hour) div 1000)\<rparr>
                            (jwt_secret cr)"
    and ex: "lo_expiresAt ok = fr_now fr + one_hour"
    by auto
  from assms(3) ex have "(fr_now fr + one_hour) div 1000 \<le> now div 1000"
    by (simp add: less_imp_div_le)
  then show ?thesis
    using assms(2) by (simp add: verifyToken_def verifyToken_body_def tok)
qed

lemma carol_logs_in:
  "authenticateUser toy_crypto carol_draw (login_as ''carol'' ''pass'') app_context tables
     = (Success \<lparr>lo_token = jwt9, lo_expiresAt = 3601000, lo_user = carol_user\<rparr>,
        tables_after_login)"
  by code_simp

theorem expired_issued_token_is_invalid_signature_witness:
  "verifyToken toy_crypto 3601001 jwt9 ''c1'' tables_after_login
     = Failure ''INVALID_SIGNATURE'' ''Invalid token signature''"
proof -
  have h2: "fr_token_id carol_draw \<noteq> []" by (simp add: carol_draw_def)
  have h3: "3601001 > lo_expiresAt \<lparr>lo_token = jwt9, lo_expiresAt = 3601000,
                                     lo_user = carol_user\<rparr>"
    by simp
  show ?thesis
    using expired_issued_token_is_invalid_signature [OF carol_logs_in h2 h3, of "''c1''"
        tables_after_login]
    by simp
qed

text \<open>
  A decoded token id that is not the text of a UUID makes the query throw, and the
  answer is SYSTEM_ERROR, not TOKEN_NOT_FOUND.
\<close>

lemma token_id_not_a_uuid:
  assumes "jwt_decode tok = Some d" and "token_id d = Some tid" and "tid \<noteq> []"
    and "jwt_verify tok (jwt_secret cr) now" and "pg_uuid tid = None"
  shows "verifyToken cr now tok cid s
         = Failure ''SYSTEM_ERROR'' ''An internal system error occurred''"
  using assms by (simp add: verifyToken_def verifyToken_body_def)

text \<open>
  The rejections of \<open>verifyToken\<close> that do come as the record tells: for a JWT that
  \<open>jwt.verify\<close> accepts and whose token id is the text of a UUID, the answer follows
  the record in the order of the tests of the source; and a success is returned only
  on a record that is found, not revoked, not expired and of the presenting consumer.
\<close>

lemma verifyToken_on_verified_jwt:
  assumes "jwt_decode tok = Some d" and "token_id d = Some tid"
    and "jwt_verify tok (jwt_secret cr) now" and "pg_uuid tid = Some tokenId"
  shows "verifyToken cr now tok cid s =
           (case findTokenByPk tokenId s of
              None \<Rightarrow> Failure ''TOKEN_NOT_FOUND'' ''Token not found''
            | Some r \<Rightarrow>
                if is_revoked r then Failure ''TOKEN_REVOKED'' ''Token has been revoked''
                else if now > expires_at r then Failure ''TOKEN_EXPIRED'' ''Token has expired''
                else if t_consumer_id r \<noteq> cid
                  then Failure ''CONSUMER_MISMATCH'' ''Token was not issued to this consumer''
                else (case findUserByPk (t_user_id r) s of
                        None \<Rightarrow> Failure ''USER_UNAVAILABLE'' ''User not found or inactive''
                      | Some u \<Rightarrow>
                          if \<not> is_active u
                          then Failure ''USER_UNAVAILABLE'' ''User not found or inactive''
                          else Success \<lparr>au_id = u_id u, au_username = username u,
                                         au_email = email u, au_roles = roles u\<rparr>))"
proof -
  from assms(4) have "tid \<noteq> []"
    by (auto simp: pg_uuid_empty)
  with assms show ?thesis
    by (simp add: verifyToken_def verifyToken_body_def split: option.splits)
qed

lemma verifyToken_fails_closed:
  assumes "verifyToken cr now tok cid s = Success au"
  shows "\<exists>tokenId r. findTokenByPk tokenId s = Some r \<and> \<not> is_revoked r \<and>
           \<not> now > expires_at r \<and> t_consumer_id r = cid"
  using assms
  by (auto simp: verifyToken_def verifyToken_body_def
      split: option.splits if_splits sum.splits)

text \<open>
  \<open>validateTokenFromHeader\<close> of token.service.js, the one caller of
  \<open>findByTokenHash\<close>, answers SYSTEM_ERROR to every header of the form
  \<open>Bearer value\<close>, and succeeds on no header.
\<close>

lemma validateTokenFromHeader_bearer:
  assumes "hdr \<noteq> []" and "split_on CHR '' '' [] hdr = [''Bearer'', tokenValue]"
  shows "validateTokenFromHeader h now (Some hdr) s
         = Failure ''SYSTEM_ERROR'' ''An internal system error occurred''"
  using assms by (simp add: validateTokenFromHeader_def findByTokenHash_def)

lemma validateTokenFromHeader_never_succeeds:
  "validateTokenFromHeader h now hdr s \<noteq> Success r"
  by (simp add: validateTokenFromHeader_def findByTokenHash_def
      split: option.splits list.splits)

section \<open>Tokens across a key rotation\<close>










end
